theory Spec2Isabelle
  imports Complex_Main
begin

section \<open>Data model of the town service\<close>

text \<open>
  The embedding follows \<^verbatim>\<open>services/townService/src/lib/CoveyTownController.ts\<close>.
  JavaScript numbers are idealised as reals (no NaN, no infinities, no rounding); strings are
  HOL strings; an optional field is an \<open>option\<close>.  Field names that clash with HOL constants or
  with a field of another record carry a prefix (\<open>player_id\<close>, \<open>jr_id\<close>, \<open>loc_x\<close>, \<open>box_x\<close>).
\<close>

datatype ConversationAreaStatus = AvailableToRequest | DoNotDisturb | Public

datatype PlayerPermissions = Normal | Admin

datatype Direction = Front | Back | Left | Right

record UserLocation =
  loc_x :: real
  loc_y :: real
  rotation :: Direction
  moving :: bool
  conversationLabel :: "string option"

record BoundingBox =
  box_x :: real
  box_y :: real
  width :: real
  height :: real

record JoinRequest =
  jr_id :: string
  jr_playerId :: string
  jr_conversationLabel :: string

text \<open>
  Players and conversation areas are objects shared by reference: the controller's lists, the
  sessions, the players' back-references and the callers all point to the same objects.  They
  live in two stores indexed by references (natural numbers); join requests are never mutated
  and are compared by their \<open>id\<close> only, so they are plain values.
\<close>

type_synonym player_ref = nat
type_synonym area_ref = nat
type_synonym listener = nat

record ServerConversationArea =
  label :: string
  topic :: "string option"
  occupantsByID :: "string list"
  boundingBox :: BoundingBox
  status :: ConversationAreaStatus
  maxOccupants :: "real option"
  joinRequests :: "JoinRequest list"

record Player =
  player_id :: string
  userName :: string
  location :: UserLocation
  permissions :: PlayerPermissions
  activeConversationArea :: "area_ref option"
  activeJoinRequest :: "JoinRequest option"

record PlayerSession =
  player :: player_ref
  sessionToken :: string
  videoToken :: "string option"

datatype Event =
    PlayerJoined player_ref
  | PlayerMoved player_ref
  | PlayerDisconnected player_ref
  | PlayerPermissionUpdated player_ref
  | ConversationAreaUpdated area_ref
  | ConversationAreaDestroyed area_ref

datatype error = VideoClientError | AssertionError

text \<open>
  The controller: its private lists, the two object stores with their allocation counters, and
  the calls made on the listeners so far (which listener received which event, in order).
\<close>

record CoveyTownController =
  players :: "player_ref list"
  sessions :: "PlayerSession list"
  listeners :: "listener list"
  conversationAreas :: "area_ref list"
  playerObjs :: "player_ref \<Rightarrow> Player"
  areaObjs :: "area_ref \<Rightarrow> ServerConversationArea"
  nextPlayer :: nat
  nextArea :: nat
  emitted :: "(listener \<times> Event) list"

record JoinRequestListEntry =
  entry_id :: string
  entry_playerId :: string
  entry_userName :: string
  entry_conversationLabel :: string
  entry_conversationTopic :: "string option"

section \<open>Helpers\<close>

definition emitAll :: "Event list \<Rightarrow> CoveyTownController \<Rightarrow> CoveyTownController" where
  "emitAll es s = s\<lparr>emitted := emitted s @ concat (map (\<lambda>l. map (Pair l) es) (listeners s))\<rparr>"

definition emit :: "Event \<Rightarrow> CoveyTownController \<Rightarrow> CoveyTownController" where
  "emit e s = emitAll [e] s"

definition updPlayer ::
  "player_ref \<Rightarrow> (Player \<Rightarrow> Player) \<Rightarrow> CoveyTownController \<Rightarrow> CoveyTownController" where
  "updPlayer r f s = s\<lparr>playerObjs := (playerObjs s)(r := f (playerObjs s r))\<rparr>"

definition updArea ::
  "area_ref \<Rightarrow> (ServerConversationArea \<Rightarrow> ServerConversationArea) \<Rightarrow>
   CoveyTownController \<Rightarrow> CoveyTownController" where
  "updArea r f s = s\<lparr>areaObjs := (areaObjs s)(r := f (areaObjs s r))\<rparr>"

text \<open>\<^verbatim>\<open>this.conversationAreas.find(ca => ca.label === l)\<close>\<close>

definition findArea :: "string \<Rightarrow> CoveyTownController \<Rightarrow> area_ref option" where
  "findArea l s = find (\<lambda>a. label (areaObjs s a) = l) (conversationAreas s)"

text \<open>\<^verbatim>\<open>this.players.find(p => p.id === pid)\<close>\<close>

definition findPlayer :: "string \<Rightarrow> CoveyTownController \<Rightarrow> player_ref option" where
  "findPlayer pid s = find (\<lambda>p. player_id (playerObjs s p) = pid) (players s)"

text \<open>\<^verbatim>\<open>l || undefined\<close> on an optional string: the empty string is falsy.\<close>

definition orUndefined :: "string option \<Rightarrow> string option" where
  "orUndefined l = (case l of None \<Rightarrow> None | Some v \<Rightarrow> if v = [] then None else Some v)"

text \<open>\<^verbatim>\<open>Number.isInteger\<close> on a finite number.\<close>

definition isInteger :: "real \<Rightarrow> bool" where
  "isInteger v = (v = of_int \<lfloor>v\<rfloor>)"

section \<open>Geometry\<close>

definition boxesOverlap :: "BoundingBox \<Rightarrow> BoundingBox \<Rightarrow> bool" where
  "boxesOverlap box1 box2 =
    (let r1x1 = box_x box1 - width box1 / 2;
         r1x2 = box_x box1 + width box1 / 2;
         r1y1 = box_y box1 - height box1 / 2;
         r1y2 = box_y box1 + height box1 / 2;
         r2x1 = box_x box2 - width box2 / 2;
         r2x2 = box_x box2 + width box2 / 2;
         r2y1 = box_y box2 - height box2 / 2;
         r2y2 = box_y box2 + height box2 / 2;
         noOverlap = (r1x1 \<ge> r2x2 \<or> r2x1 \<ge> r1x2 \<or> r1y1 \<ge> r2y2 \<or> r2y1 \<ge> r1y2)
     in \<not> noOverlap)"

text \<open>
  Modelled from the spec: \<^verbatim>\<open>Player.isWithin\<close> (\<^verbatim>\<open>types/Player.ts\<close> of the town service is not
  among the sources).  The spec speaks of a player "whose position falls within the new box";
  the controller functions below take the test as a parameter, and this definition is the
  instance used at concrete inputs, where the players stand at the centre of the box.
\<close>

definition isWithin :: "Player \<Rightarrow> ServerConversationArea \<Rightarrow> bool" where
  "isWithin p a =
    (let b = boundingBox a; l = location p
     in loc_x l > box_x b - width b / 2 \<and> loc_x l < box_x b + width b / 2 \<and>
        loc_y l > box_y b - height b / 2 \<and> loc_y l < box_y b + height b / 2)"

section \<open>The controller\<close>

text \<open>The constructor: empty lists; the stores hold no object yet.\<close>

definition noArea :: ServerConversationArea where
  "noArea = \<lparr>label = [], topic = None, occupantsByID = [],
     boundingBox = \<lparr>box_x = 0, box_y = 0, width = 0, height = 0\<rparr>,
     status = Public, maxOccupants = None, joinRequests = []\<rparr>"

definition noPlayer :: Player where
  "noPlayer = \<lparr>player_id = [], userName = [],
     location = \<lparr>loc_x = 0, loc_y = 0, rotation = Front, moving = False, conversationLabel = None\<rparr>,
     permissions = Normal, activeConversationArea = None, activeJoinRequest = None\<rparr>"

definition newTown :: CoveyTownController where
  "newTown = \<lparr>players = [], sessions = [], listeners = [], conversationAreas = [],
     playerObjs = (\<lambda>_. noPlayer), areaObjs = (\<lambda>_. noArea),
     nextPlayer = 0, nextArea = 0, emitted = []\<rparr>"

definition addTownListener :: "listener \<Rightarrow> CoveyTownController \<Rightarrow> CoveyTownController" where
  "addTownListener l s = s\<lparr>listeners := listeners s @ [l]\<rparr>"

definition removeTownListener :: "listener \<Rightarrow> CoveyTownController \<Rightarrow> CoveyTownController" where
  "removeTownListener l s = s\<lparr>listeners := filter (\<lambda>v. v \<noteq> l) (listeners s)\<rparr>"

text \<open>
  \<^verbatim>\<open>addPlayer\<close>.  The caller's new \<open>Player\<close> object is placed in the store at a fresh reference.
  The session token made by the \<open>PlayerSession\<close> constructor and the outcome of the awaited
  \<^verbatim>\<open>getTokenForTown\<close> call are parameters.  Session and player are pushed before the call is
  awaited; when the call rejects, the rejection propagates and nothing after it runs.
\<close>

definition addPlayer ::
  "Player \<Rightarrow> string \<Rightarrow> error + string \<Rightarrow> CoveyTownController \<Rightarrow>
   (error + PlayerSession) \<times> CoveyTownController" where
  "addPlayer newPlayer tok video s =
    (let r = nextPlayer s;
         s0 = s\<lparr>playerObjs := (playerObjs s)(r := newPlayer), nextPlayer := Suc r\<rparr>;
         theSession = \<lparr>player = r, sessionToken = tok, videoToken = None\<rparr>;
         s1 = s0\<lparr>sessions := sessions s0 @ [theSession]\<rparr>;
         s2 = s1\<lparr>players := players s1 @ [r]\<rparr>
     in case video of
          Inl e \<Rightarrow> (Inl e, s2)
        | Inr vt \<Rightarrow>
            (let theSession' = theSession\<lparr>videoToken := Some vt\<rparr>;
                 s3 = s2\<lparr>sessions := sessions s0 @ [theSession']\<rparr>
             in (Inr theSession', emit (PlayerJoined r) s3)))"

text \<open>\<^verbatim>\<open>removeJoinRequest\<close>\<close>

definition removeJoinRequest ::
  "JoinRequest \<Rightarrow> CoveyTownController \<Rightarrow> bool \<times> CoveyTownController" where
  "removeJoinRequest joinRequest s =
    (case findArea (jr_conversationLabel joinRequest) s of
       None \<Rightarrow> (False, s)
     | Some ca \<Rightarrow>
        (case findPlayer (jr_playerId joinRequest) s of
           None \<Rightarrow> (False, s)
         | Some p \<Rightarrow>
            (let s1 = updArea ca (\<lambda>a. a\<lparr>joinRequests :=
                        filter (\<lambda>request. jr_id request \<noteq> jr_id joinRequest) (joinRequests a)\<rparr>) s;
                 s2 = updPlayer p (\<lambda>pl. pl\<lparr>activeJoinRequest := None\<rparr>) s1
             in (True, emitAll [PlayerMoved p, ConversationAreaUpdated ca] s2))))"

text \<open>
  \<^verbatim>\<open>joinRequests.forEach(jq => this.removeJoinRequest(jq))\<close>: the callback replaces the area's
  \<open>joinRequests\<close> by a new filtered array, so \<open>forEach\<close> walks the array as it was when the loop
  started.
\<close>

definition removeAll :: "JoinRequest list \<Rightarrow> CoveyTownController \<Rightarrow> CoveyTownController" where
  "removeAll jrs s = fold (\<lambda>jq t. snd (removeJoinRequest jq t)) jrs s"

text \<open>\<^verbatim>\<open>acceptJoinRequest\<close>\<close>

definition acceptJoinRequest ::
  "JoinRequest \<Rightarrow> CoveyTownController \<Rightarrow> bool \<times> CoveyTownController" where
  "acceptJoinRequest joinRequest s =
    (case findArea (jr_conversationLabel joinRequest) s of
       None \<Rightarrow> (False, s)
     | Some ca \<Rightarrow>
        (case findPlayer (jr_playerId joinRequest) s of
           None \<Rightarrow> (False, s)
         | Some p \<Rightarrow>
            (let s1 = updArea ca (\<lambda>a. a\<lparr>occupantsByID :=
                        occupantsByID a @ [player_id (playerObjs s p)]\<rparr>) s;
                 s2 = updPlayer p (\<lambda>pl. pl\<lparr>activeConversationArea := Some ca\<rparr>) s1;
                 s3 = updPlayer p (\<lambda>pl. pl\<lparr>location :=
                        (location pl)\<lparr>conversationLabel := Some (label (areaObjs s2 ca))\<rparr>\<rparr>) s2;
                 s4 = updArea ca (\<lambda>a. a\<lparr>joinRequests :=
                        filter (\<lambda>request. jr_id request \<noteq> jr_id joinRequest) (joinRequests a)\<rparr>) s3;
                 s5 = updPlayer p (\<lambda>pl. pl\<lparr>activeJoinRequest := None\<rparr>) s4;
                 s6 = (if maxOccupants (areaObjs s5 ca)
                          = Some (real (length (occupantsByID (areaObjs s5 ca))))
                       then removeAll (joinRequests (areaObjs s5 ca)) s5 else s5)
             in (True, emitAll [PlayerMoved p, ConversationAreaUpdated ca] s6))))"

definition acceptAll :: "JoinRequest list \<Rightarrow> CoveyTownController \<Rightarrow> CoveyTownController" where
  "acceptAll jrs s = fold (\<lambda>jr t. snd (acceptJoinRequest jr t)) jrs s"

text \<open>
  \<^verbatim>\<open>removePlayerFromConversationArea\<close>.  \<^verbatim>\<open>occupantsByID.find(p => p === player.id)\<close> yields the
  id itself, which is falsy when it is the empty string.  \<^verbatim>\<open>splice(findIndex(...), 1)\<close> removes
  the first match; when \<open>findIndex\<close> finds none it yields \<open>-1\<close> and \<open>splice(-1, 1)\<close> removes the last
  element of the array.
\<close>

definition removePlayerFromConversationArea ::
  "player_ref \<Rightarrow> area_ref \<Rightarrow> CoveyTownController \<Rightarrow> CoveyTownController" where
  "removePlayerFromConversationArea p conversation s =
    (let pid = player_id (playerObjs s p);
         s1 = (if pid \<in> set (occupantsByID (areaObjs s conversation)) \<and> pid \<noteq> []
               then updArea conversation (\<lambda>a. a\<lparr>occupantsByID := remove1 pid (occupantsByID a)\<rparr>) s
               else s);
         s2 = (case activeJoinRequest (playerObjs s1 p) of
                 None \<Rightarrow> s1
               | Some playerJoinRequest \<Rightarrow>
                   if \<exists>jr \<in> set (joinRequests (areaObjs s1 conversation)).
                        jr_id jr = jr_id playerJoinRequest
                   then snd (removeJoinRequest playerJoinRequest s1) else s1);
         s3 = (if permissions (playerObjs s2 p) = Admin
               then (let t1 = updPlayer p (\<lambda>pl. pl\<lparr>permissions := Normal\<rparr>) s2;
                         t2 = emit (PlayerPermissionUpdated p) t1;
                         t3 = updArea conversation (\<lambda>a. a\<lparr>status := Public\<rparr>) t2
                     in acceptAll (joinRequests (areaObjs t3 conversation)) t3)
               else s2)
     in if length (occupantsByID (areaObjs s3 conversation)) = 0
        then emit (ConversationAreaDestroyed conversation)
               (s3\<lparr>conversationAreas :=
                  (if conversation \<in> set (conversationAreas s3)
                   then remove1 conversation (conversationAreas s3)
                   else butlast (conversationAreas s3))\<rparr>)
        else emit (ConversationAreaUpdated conversation) s3)"

text \<open>\<^verbatim>\<open>destroySession\<close>\<close>

definition destroySession :: "PlayerSession \<Rightarrow> CoveyTownController \<Rightarrow> CoveyTownController" where
  "destroySession session s =
    (let s1 = s\<lparr>players := filter (\<lambda>p. player_id (playerObjs s p)
                                  \<noteq> player_id (playerObjs s (player session))) (players s)\<rparr>;
         s2 = s1\<lparr>sessions := filter (\<lambda>x. sessionToken x \<noteq> sessionToken session) (sessions s1)\<rparr>;
         s3 = emit (PlayerDisconnected (player session)) s2
     in case activeConversationArea (playerObjs s3 (player session)) of
          None \<Rightarrow> s3
        | Some conversation \<Rightarrow> removePlayerFromConversationArea (player session) conversation s3)"

text \<open>\<^verbatim>\<open>updatePlayerLocation\<close>\<close>

definition updatePlayerLocation ::
  "player_ref \<Rightarrow> UserLocation \<Rightarrow> CoveyTownController \<Rightarrow> CoveyTownController" where
  "updatePlayerLocation p loc s =
    (let s1 = updPlayer p (\<lambda>pl. pl\<lparr>location := loc\<rparr>) s;
         conversation = find (\<lambda>conv. Some (label (areaObjs s1 conv)) = conversationLabel loc)
                          (conversationAreas s1)
     in if (case conversation of None \<Rightarrow> False
            | Some c \<Rightarrow> status (areaObjs s1 c) = DoNotDisturb)
        then updPlayer p (\<lambda>pl. pl\<lparr>location :=
               loc\<lparr>conversationLabel := orUndefined (conversationLabel (location pl))\<rparr>\<rparr>) s1
        else
         (let prevConversation = activeConversationArea (playerObjs s1 p);
              s2 = (if (case conversation of None \<Rightarrow> True
                        | Some c \<Rightarrow> status (areaObjs s1 c) = Public)
                    then updPlayer p (\<lambda>pl. pl\<lparr>location := loc,
                                               activeConversationArea := conversation\<rparr>) s1
                    else s1);
              s3 = (if conversation \<noteq> prevConversation
                    then (let t1 = (case prevConversation of None \<Rightarrow> s2
                                    | Some pc \<Rightarrow> removePlayerFromConversationArea p pc s2)
                          in case conversation of None \<Rightarrow> t1
                             | Some c \<Rightarrow>
                                (let t2 = (if status (areaObjs t1 c) = Public
                                           then updArea c (\<lambda>a. a\<lparr>occupantsByID :=
                                                  occupantsByID a @ [player_id (playerObjs t1 p)]\<rparr>)
                                                  (updPlayer p (\<lambda>pl. pl\<lparr>location := loc\<rparr>) t1)
                                           else updPlayer p (\<lambda>pl. pl\<lparr>location :=
                                                  loc\<lparr>conversationLabel :=
                                                    orUndefined (conversationLabel (location pl))\<rparr>\<rparr>) t1)
                                 in emit (ConversationAreaUpdated c) t2))
                    else s2);
              s4 = (case activeJoinRequest (playerObjs s3 p) of
                      None \<Rightarrow> s3
                    | Some jr \<Rightarrow>
                        if Some (jr_conversationLabel jr)
                             \<noteq> map_option (\<lambda>c. label (areaObjs s3 c)) conversation
                        then snd (removeJoinRequest jr s3) else s3)
          in emit (PlayerMoved p) s4))"

text \<open>
  \<^verbatim>\<open>addConversationArea\<close>.  The area object handed in by the caller is placed in the store at a
  fresh reference.  \<^verbatim>\<open>maxOccupants && maxOccupants <= 0\<close> is truthy only for a number that is not
  zero.  The first parameter stands for \<^verbatim>\<open>Player.isWithin\<close>.
\<close>

definition addConversationArea ::
  "(Player \<Rightarrow> ServerConversationArea \<Rightarrow> bool) \<Rightarrow> ServerConversationArea \<Rightarrow> player_ref \<Rightarrow>
   CoveyTownController \<Rightarrow> bool \<times> CoveyTownController" where
  "addConversationArea inside ca p s =
    (if find (\<lambda>a. label (areaObjs s a) = label ca) (conversationAreas s) \<noteq> None then (False, s)
     else if topic ca = Some [] then (False, s)
     else if (case maxOccupants ca of None \<Rightarrow> False | Some m \<Rightarrow> m \<noteq> 0 \<and> m \<le> 0) then (False, s)
     else if find (\<lambda>a. boxesOverlap (boundingBox (areaObjs s a)) (boundingBox ca))
               (conversationAreas s) \<noteq> None then (False, s)
     else
      (let newArea = nextArea s;
           s1 = s\<lparr>areaObjs := (areaObjs s)(newArea := ca), nextArea := Suc newArea,
                  conversationAreas := conversationAreas s @ [newArea]\<rparr>;
           playersInThisConversation =
             filter (\<lambda>q. inside (playerObjs s1 q) (areaObjs s1 newArea)) (players s1);
           s2 = fold (\<lambda>q t. updPlayer q (\<lambda>pl. pl\<lparr>activeConversationArea := Some newArea\<rparr>) t)
                  playersInThisConversation s1;
           s3 = updArea newArea (\<lambda>a. a\<lparr>occupantsByID :=
                  map (\<lambda>q. player_id (playerObjs s2 q)) playersInThisConversation\<rparr>) s2;
           s4 = (if status ca = AvailableToRequest
                 then emit (PlayerPermissionUpdated p)
                        (updPlayer p (\<lambda>pl. pl\<lparr>permissions := Admin\<rparr>) s3)
                 else s3)
       in (True, emit (ConversationAreaUpdated newArea) s4)))"

text \<open>\<^verbatim>\<open>updateConversationArea\<close>\<close>

definition updateConversationArea ::
  "string \<Rightarrow> player_ref \<Rightarrow> ConversationAreaStatus option \<Rightarrow> real option \<Rightarrow>
   CoveyTownController \<Rightarrow> bool \<times> CoveyTownController" where
  "updateConversationArea lbl p st mo s =
    (case findArea lbl s of
       None \<Rightarrow> (False, s)
     | Some ca \<Rightarrow>
        if map_option (\<lambda>c. label (areaObjs s c)) (activeConversationArea (playerObjs s p)) \<noteq> Some lbl
           \<or> player_id (playerObjs s p) \<notin> set (occupantsByID (areaObjs s ca))
        then (False, s)
        else if permissions (playerObjs s p) \<noteq> Admin then (False, s)
        else if (case mo of None \<Rightarrow> False
                 | Some m \<Rightarrow> \<not> isInteger m \<or> m < real (length (occupantsByID (areaObjs s ca))))
        then (False, s)
        else
         (let s1 = (case st of None \<Rightarrow> s | Some v \<Rightarrow> updArea ca (\<lambda>a. a\<lparr>status := v\<rparr>) s);
              s2 = updArea ca (\<lambda>a. a\<lparr>maxOccupants := mo\<rparr>) s1;
              s3 = (if status (areaObjs s2 ca) = DoNotDisturb
                       \<or> (status (areaObjs s2 ca) = AvailableToRequest
                          \<and> Some (real (length (occupantsByID (areaObjs s2 ca))))
                              = maxOccupants (areaObjs s2 ca))
                    then removeAll (joinRequests (areaObjs s2 ca)) s2 else s2);
              s4 = (if status (areaObjs s3 ca) = Public
                    then emit (PlayerPermissionUpdated p)
                           (updPlayer p (\<lambda>pl. pl\<lparr>permissions := Normal\<rparr>) s3)
                    else s3)
          in (True, emit (ConversationAreaUpdated ca) s4)))"

text \<open>
  \<^verbatim>\<open>getJoinRequests\<close>: the \<open>map\<close> callback asserts that the requesting player is found; a failed
  assertion throws.
\<close>

fun joinRequestEntries ::
  "CoveyTownController \<Rightarrow> ServerConversationArea \<Rightarrow> JoinRequest list \<Rightarrow>
   error + JoinRequestListEntry list" where
  "joinRequestEntries s a [] = Inr []"
| "joinRequestEntries s a (jr # jrs) =
    (case findPlayer (jr_playerId jr) s of
       None \<Rightarrow> Inl AssertionError
     | Some reqPlayer \<Rightarrow>
        (case joinRequestEntries s a jrs of
           Inl e \<Rightarrow> Inl e
         | Inr es \<Rightarrow> Inr (\<lparr>entry_id = jr_id jr, entry_playerId = jr_playerId jr,
                            entry_userName = userName (playerObjs s reqPlayer),
                            entry_conversationLabel = label a,
                            entry_conversationTopic = topic a\<rparr> # es)))"

definition getJoinRequests ::
  "string \<Rightarrow> player_ref \<Rightarrow> CoveyTownController \<Rightarrow> error + JoinRequestListEntry list option" where
  "getJoinRequests lbl p s =
    (case findArea lbl s of
       None \<Rightarrow> Inr None
     | Some ca \<Rightarrow>
        if activeConversationArea (playerObjs s p) \<noteq> Some ca
           \<or> player_id (playerObjs s p) \<notin> set (occupantsByID (areaObjs s ca))
        then Inr None
        else if permissions (playerObjs s p) \<noteq> Admin then Inr None
        else (case joinRequestEntries s (areaObjs s ca) (joinRequests (areaObjs s ca)) of
                Inl e \<Rightarrow> Inl e
              | Inr es \<Rightarrow> Inr (Some es)))"

text \<open>\<^verbatim>\<open>updateJoinRequest\<close>\<close>

definition updateJoinRequest ::
  "player_ref \<Rightarrow> bool \<Rightarrow> JoinRequest \<Rightarrow> CoveyTownController \<Rightarrow> bool \<times> CoveyTownController" where
  "updateJoinRequest p decision joinRequest s =
    (if permissions (playerObjs s p) \<noteq> Admin
        \<and> (decision \<or> player_id (playerObjs s p) \<noteq> jr_playerId joinRequest)
     then (False, s)
     else if permissions (playerObjs s p) = Admin
        \<and> (case activeConversationArea (playerObjs s p) of
              None \<Rightarrow> True
            | Some ca \<Rightarrow> \<not> (\<exists>caJoinRequest \<in> set (joinRequests (areaObjs s ca)).
                               jr_id caJoinRequest = jr_id joinRequest))
     then (False, s)
     else if decision then (True, snd (acceptJoinRequest joinRequest s))
     else (True, snd (removeJoinRequest joinRequest s)))"

text \<open>
  \<^verbatim>\<open>createJoinRequest\<close>; the id made by \<^verbatim>\<open>nanoid()\<close> is a parameter, and so is
  \<^verbatim>\<open>Player.isWithin\<close>.
\<close>

definition createJoinRequest ::
  "(Player \<Rightarrow> ServerConversationArea \<Rightarrow> bool) \<Rightarrow> string \<Rightarrow> string \<Rightarrow> player_ref \<Rightarrow>
   CoveyTownController \<Rightarrow> bool \<times> CoveyTownController" where
  "createJoinRequest inside newId lbl p s =
    (case findArea lbl s of
       None \<Rightarrow> (False, s)
     | Some ca \<Rightarrow>
        if status (areaObjs s ca) \<noteq> AvailableToRequest then (False, s)
        else if activeConversationArea (playerObjs s p) \<noteq> None
              \<or> activeJoinRequest (playerObjs s p) \<noteq> None
              \<or> \<not> inside (playerObjs s p) (areaObjs s ca)
        then (False, s)
        else
         (let newJoinRequest = \<lparr>jr_id = newId, jr_playerId = player_id (playerObjs s p),
                                 jr_conversationLabel = label (areaObjs s ca)\<rparr>;
              s1 = updArea ca (\<lambda>a. a\<lparr>joinRequests := joinRequests a @ [newJoinRequest]\<rparr>) s;
              s2 = updPlayer p (\<lambda>pl. pl\<lparr>activeJoinRequest := Some newJoinRequest\<rparr>) s1;
              s3 = emit (ConversationAreaUpdated ca) s2;
              s4 = (if (case maxOccupants (areaObjs s3 ca) of
                          None \<Rightarrow> False
                        | Some m \<Rightarrow> m \<noteq> 0 \<and> m = real (length (occupantsByID (areaObjs s3 ca))))
                    then snd (removeJoinRequest newJoinRequest s3) else s3)
          in (True, emit (ConversationAreaUpdated ca) s4)))"

section \<open>Specification-side definitions\<close>

text \<open>
  Two frames.  A denial, and a cascade of denials, changes nothing but pending lists and the
  players' \<open>activeJoinRequest\<close>; an acceptance changes, beyond that, occupant lists and the
  players' location and membership.  Both only add to the events sent.
\<close>

definition onlyRequestsChanged :: "CoveyTownController \<Rightarrow> CoveyTownController \<Rightarrow> bool" where
  "onlyRequestsChanged s s' =
    (players s' = players s \<and> sessions s' = sessions s \<and> listeners s' = listeners s \<and>
     conversationAreas s' = conversationAreas s \<and>
     nextPlayer s' = nextPlayer s \<and> nextArea s' = nextArea s \<and>
     (\<forall>a. areaObjs s' a = (areaObjs s a)\<lparr>joinRequests := joinRequests (areaObjs s' a)\<rparr>) \<and>
     (\<forall>q. playerObjs s' q
            = (playerObjs s q)\<lparr>activeJoinRequest := activeJoinRequest (playerObjs s' q)\<rparr>) \<and>
     (\<exists>es. emitted s' = emitted s @ es))"

definition onlyMembershipChanged :: "CoveyTownController \<Rightarrow> CoveyTownController \<Rightarrow> bool" where
  "onlyMembershipChanged s s' =
    (players s' = players s \<and> sessions s' = sessions s \<and> listeners s' = listeners s \<and>
     conversationAreas s' = conversationAreas s \<and>
     nextPlayer s' = nextPlayer s \<and> nextArea s' = nextArea s \<and>
     (\<forall>a. areaObjs s' a = (areaObjs s a)\<lparr>occupantsByID := occupantsByID (areaObjs s' a),
                                          joinRequests := joinRequests (areaObjs s' a)\<rparr>) \<and>
     (\<forall>q. playerObjs s' q
            = (playerObjs s q)\<lparr>location := location (playerObjs s' q),
                                activeConversationArea := activeConversationArea (playerObjs s' q),
                                activeJoinRequest := activeJoinRequest (playerObjs s' q)\<rparr>) \<and>
     (\<exists>es. emitted s' = emitted s @ es))"

text \<open>
  What the operations other than \<open>addConversationArea\<close> do to the list of active areas: no area
  is allocated, no bounding box changes, and the list loses elements at most.
\<close>

definition areasShrink :: "CoveyTownController \<Rightarrow> CoveyTownController \<Rightarrow> bool" where
  "areasShrink s s' =
    (nextArea s' = nextArea s \<and>
     (\<forall>a. boundingBox (areaObjs s' a) = boundingBox (areaObjs s a)) \<and>
     set (conversationAreas s') \<subseteq> set (conversationAreas s) \<and>
     (distinct (conversationAreas s) \<longrightarrow> distinct (conversationAreas s')))"

text \<open>The invariant of the active areas, with what its proof needs besides.\<close>

definition noOverlaps :: "CoveyTownController \<Rightarrow> bool" where
  "noOverlaps s =
    (distinct (conversationAreas s) \<and>
     (\<forall>a \<in> set (conversationAreas s). a < nextArea s) \<and>
     (\<forall>a \<in> set (conversationAreas s). \<forall>b \<in> set (conversationAreas s).
        a \<noteq> b \<longrightarrow> \<not> boxesOverlap (boundingBox (areaObjs s a)) (boundingBox (areaObjs s b))))"

text \<open>
  The states of a town: from the constructor's state by the operations of the controller, in any
  order and with any arguments that refer to objects already created.
\<close>

inductive reachable ::
  "(Player \<Rightarrow> ServerConversationArea \<Rightarrow> bool) \<Rightarrow> CoveyTownController \<Rightarrow> bool"
  for inside :: "Player \<Rightarrow> ServerConversationArea \<Rightarrow> bool" where
  r_new: "reachable inside newTown"
| r_addTownListener: "reachable inside s \<Longrightarrow> reachable inside (addTownListener l s)"
| r_removeTownListener: "reachable inside s \<Longrightarrow> reachable inside (removeTownListener l s)"
| r_addPlayer: "reachable inside s \<Longrightarrow> reachable inside (snd (addPlayer newPlayer tok video s))"
| r_destroySession:
    "reachable inside s \<Longrightarrow> player session < nextPlayer s \<Longrightarrow>
     reachable inside (destroySession session s)"
| r_updatePlayerLocation:
    "reachable inside s \<Longrightarrow> p < nextPlayer s \<Longrightarrow>
     reachable inside (updatePlayerLocation p loc s)"
| r_removePlayerFromConversationArea:
    "reachable inside s \<Longrightarrow> p < nextPlayer s \<Longrightarrow> c < nextArea s \<Longrightarrow>
     reachable inside (removePlayerFromConversationArea p c s)"
| r_addConversationArea:
    "reachable inside s \<Longrightarrow> p < nextPlayer s \<Longrightarrow>
     reachable inside (snd (addConversationArea inside ca p s))"
| r_updateConversationArea:
    "reachable inside s \<Longrightarrow> p < nextPlayer s \<Longrightarrow>
     reachable inside (snd (updateConversationArea lbl p st mo s))"
| r_createJoinRequest:
    "reachable inside s \<Longrightarrow> p < nextPlayer s \<Longrightarrow>
     reachable inside (snd (createJoinRequest inside newId lbl p s))"
| r_updateJoinRequest:
    "reachable inside s \<Longrightarrow> p < nextPlayer s \<Longrightarrow>
     reachable inside (snd (updateJoinRequest p decision jr s))"
| r_acceptJoinRequest: "reachable inside s \<Longrightarrow> reachable inside (snd (acceptJoinRequest jr s))"
| r_removeJoinRequest: "reachable inside s \<Longrightarrow> reachable inside (snd (removeJoinRequest jr s))"

text \<open>
  The authorisation rule of \<open>resolveJoinRequest\<close> in the words of the specification.  A player
  without \<open>Admin\<close> permission may only deny a request whose player id is their own.  A player
  with \<open>Admin\<close> permission may accept or deny only a request that is listed, as it is, in the
  pending list of the conversation area they occupy: the area of their membership, in whose
  occupant list they are.
\<close>

definition resolvePermitted ::
  "player_ref \<Rightarrow> bool \<Rightarrow> JoinRequest \<Rightarrow> CoveyTownController \<Rightarrow> bool" where
  "resolvePermitted p accept jr s =
    (if permissions (playerObjs s p) = Admin
     then (case activeConversationArea (playerObjs s p) of
             None \<Rightarrow> False
           | Some ca \<Rightarrow> player_id (playerObjs s p) \<in> set (occupantsByID (areaObjs s ca)) \<and>
                        jr \<in> set (joinRequests (areaObjs s ca)))
     else \<not> accept \<and> jr_playerId jr = player_id (playerObjs s p))"

section \<open>Concrete scenarios\<close>

text \<open>
  A player as the service creates it on a join request: standing at the origin, facing front,
  with \<open>Normal\<close> permission.  The area \<open>L\<close> is the 5 by 5 box around the origin.
\<close>

definition playerNamed :: "string \<Rightarrow> Player" where
  "playerNamed i = \<lparr>player_id = i, userName = i,
     location = \<lparr>loc_x = 0, loc_y = 0, rotation = Front, moving = False, conversationLabel = None\<rparr>,
     permissions = Normal, activeConversationArea = None, activeJoinRequest = None\<rparr>"

definition areaL :: "ConversationAreaStatus \<Rightarrow> real option \<Rightarrow> ServerConversationArea" where
  "areaL st m = \<lparr>label = ''L'', topic = Some ''chat'', occupantsByID = [],
     boundingBox = \<lparr>box_x = 0, box_y = 0, width = 5, height = 5\<rparr>,
     status = st, maxOccupants = m, joinRequests = []\<rparr>"

text \<open>
  One listener subscribes and player A joins; A creates \<open>L\<close> with status \<open>AvailableToRequest\<close>
  and capacity 2, becoming its admin and only occupant; player B joins and asks to enter \<open>L\<close>.
\<close>

definition town1 :: CoveyTownController where
  "town1 = snd (addPlayer (playerNamed ''A'') ''sA'' (Inr ''vA'') (addTownListener 7 newTown))"

definition town2 :: CoveyTownController where
  "town2 = snd (addConversationArea isWithin (areaL AvailableToRequest (Some 2)) 0 town1)"

definition town3 :: CoveyTownController where
  "town3 = snd (addPlayer (playerNamed ''B'') ''sB'' (Inr ''vB'') town2)"

definition town4 :: CoveyTownController where
  "town4 = snd (createJoinRequest isWithin ''r1'' ''L'' 1 town3)"

definition requestR1 :: JoinRequest where
  "requestR1 = \<lparr>jr_id = ''r1'', jr_playerId = ''B'', jr_conversationLabel = ''L''\<rparr>"

text \<open>B's request has been denied once.\<close>

definition town4denied :: CoveyTownController where
  "town4denied = snd (removeJoinRequest requestR1 town4)"

text \<open>B disconnects while the request is pending.\<close>

definition sessionB :: PlayerSession where
  "sessionB = \<lparr>player = 1, sessionToken = ''sB'', videoToken = Some ''vB''\<rparr>"

definition town5 :: CoveyTownController where
  "town5 = destroySession sessionB town4"

text \<open>
  Instead, players C and D join and ask to enter \<open>L\<close> as well; then the admin A is removed from
  \<open>L\<close>.
\<close>

definition town6 :: CoveyTownController where
  "town6 = snd (addPlayer (playerNamed ''C'') ''sC'' (Inr ''vC'') town4)"

definition town7 :: CoveyTownController where
  "town7 = snd (createJoinRequest isWithin ''r2'' ''L'' 2 town6)"

definition town8 :: CoveyTownController where
  "town8 = snd (addPlayer (playerNamed ''D'') ''sD'' (Inr ''vD'') town7)"

definition town9 :: CoveyTownController where
  "town9 = snd (createJoinRequest isWithin ''r3'' ''L'' 3 town8)"

definition town10 :: CoveyTownController where
  "town10 = removePlayerFromConversationArea 0 0 town9"

text \<open>A and B both stand at the origin before any area exists.\<close>

definition townAB :: CoveyTownController where
  "townAB = snd (addPlayer (playerNamed ''B'') ''sB'' (Inr ''vB'') town1)"

text \<open>
  A \<open>DoNotDisturb\<close> area \<open>K\<close> away from the origin, created while A is the only player, and a
  location inside it that declares its label.
\<close>

definition areaK :: ServerConversationArea where
  "areaK = \<lparr>label = ''K'', topic = Some ''quiet'', occupantsByID = [],
     boundingBox = \<lparr>box_x = 10, box_y = 10, width = 5, height = 5\<rparr>,
     status = DoNotDisturb, maxOccupants = None, joinRequests = []\<rparr>"

definition townK :: CoveyTownController where
  "townK = snd (addConversationArea isWithin areaK 0 town1)"

definition locationInK :: UserLocation where
  "locationInK = \<lparr>loc_x = 10, loc_y = 10, rotation = Front, moving = False,
                   conversationLabel = Some ''K''\<rparr>"

text \<open>A second area \<open>M\<close>, beside \<open>L\<close>: the two boxes share an edge.\<close>

definition areaM :: ServerConversationArea where
  "areaM = \<lparr>label = ''M'', topic = Some ''talk'', occupantsByID = [],
     boundingBox = \<lparr>box_x = 5, box_y = 0, width = 5, height = 5\<rparr>,
     status = Public, maxOccupants = None, joinRequests = []\<rparr>"

definition townLM :: CoveyTownController where
  "townLM = snd (addConversationArea isWithin areaM 0 town2)"

text \<open>
  While B's request is pending on \<open>L\<close>, the area \<open>M\<close> is created and player C joins.  The
  forged request carries the id of B's request, but names C and \<open>M\<close>.
\<close>

definition town4M :: CoveyTownController where
  "town4M = snd (addPlayer (playerNamed ''C'') ''sC'' (Inr ''vC'')
                  (snd (addConversationArea isWithin areaM 0 town4)))"

definition forgedRequest :: JoinRequest where
  "forgedRequest = \<lparr>jr_id = ''r1'', jr_playerId = ''C'', jr_conversationLabel = ''M''\<rparr>"

text \<open>
  A player who is an admin, has \<open>L\<close> as membership and is not among its occupants.  From
  \<open>town2\<close>: C joins, asks to enter \<open>L\<close> and is accepted by A; A creates the area \<open>Q\<close>; C moves
  into \<open>Q\<close> declaring its label, which takes C out of the occupants of \<open>L\<close> and leaves C's
  membership as it was; C creates the area \<open>N\<close> and becomes an admin; B joins and asks to enter
  \<open>L\<close>.
\<close>

definition areaAt :: "string \<Rightarrow> real \<Rightarrow> ServerConversationArea" where
  "areaAt l cx = \<lparr>label = l, topic = Some ''chat'', occupantsByID = [],
     boundingBox = \<lparr>box_x = cx, box_y = 0, width = 5, height = 5\<rparr>,
     status = AvailableToRequest, maxOccupants = None, joinRequests = []\<rparr>"

definition requestR2 :: JoinRequest where
  "requestR2 = \<lparr>jr_id = ''r2'', jr_playerId = ''C'', jr_conversationLabel = ''L''\<rparr>"

definition locationInQ :: UserLocation where
  "locationInQ = \<lparr>loc_x = 20, loc_y = 0, rotation = Front, moving = False,
                   conversationLabel = Some ''Q''\<rparr>"

definition townS1 :: CoveyTownController where
  "townS1 = snd (updateJoinRequest 0 True requestR2
              (snd (createJoinRequest isWithin ''r2'' ''L'' 1
                 (snd (addPlayer (playerNamed ''C'') ''sC'' (Inr ''vC'') town2)))))"

definition townS2 :: CoveyTownController where
  "townS2 = snd (addConversationArea isWithin (areaAt ''N'' 40) 1
              (updatePlayerLocation 1 locationInQ
                 (snd (addConversationArea isWithin (areaAt ''Q'' 20) 0 townS1))))"

definition townS3 :: CoveyTownController where
  "townS3 = snd (createJoinRequest isWithin ''r1'' ''L'' 2
              (snd (addPlayer (playerNamed ''B'') ''sB'' (Inr ''vB'') townS2)))"

section \<open>Basic facts\<close>


lemma emitAll_fields [simp]:
  "players (emitAll es s) = players s"
  "sessions (emitAll es s) = sessions s"
  "listeners (emitAll es s) = listeners s"
  "conversationAreas (emitAll es s) = conversationAreas s"
  "playerObjs (emitAll es s) = playerObjs s"
  "areaObjs (emitAll es s) = areaObjs s"
  "nextPlayer (emitAll es s) = nextPlayer s"
  "nextArea (emitAll es s) = nextArea s"
  "emitted (emitAll es s) = emitted s @ concat (map (\<lambda>l. map (Pair l) es) (listeners s))"
  by (simp_all add: emitAll_def)

lemma emit_fields [simp]:
  "players (emit e s) = players s"
  "sessions (emit e s) = sessions s"
  "listeners (emit e s) = listeners s"
  "conversationAreas (emit e s) = conversationAreas s"
  "playerObjs (emit e s) = playerObjs s"
  "areaObjs (emit e s) = areaObjs s"
  "nextPlayer (emit e s) = nextPlayer s"
  "nextArea (emit e s) = nextArea s"
  "emitted (emit e s) = emitted s @ map (\<lambda>l. (l, e)) (listeners s)"
  by (simp_all add: emit_def emitAll_def concat_map_singleton)

lemma updPlayer_fields [simp]:
  "players (updPlayer r f s) = players s"
  "sessions (updPlayer r f s) = sessions s"
  "listeners (updPlayer r f s) = listeners s"
  "conversationAreas (updPlayer r f s) = conversationAreas s"
  "playerObjs (updPlayer r f s) = (playerObjs s)(r := f (playerObjs s r))"
  "areaObjs (updPlayer r f s) = areaObjs s"
  "nextPlayer (updPlayer r f s) = nextPlayer s"
  "nextArea (updPlayer r f s) = nextArea s"
  "emitted (updPlayer r f s) = emitted s"
  by (simp_all add: updPlayer_def)

lemma updArea_fields [simp]:
  "players (updArea r f s) = players s"
  "sessions (updArea r f s) = sessions s"
  "listeners (updArea r f s) = listeners s"
  "conversationAreas (updArea r f s) = conversationAreas s"
  "playerObjs (updArea r f s) = playerObjs s"
  "areaObjs (updArea r f s) = (areaObjs s)(r := f (areaObjs s r))"
  "nextPlayer (updArea r f s) = nextPlayer s"
  "nextArea (updArea r f s) = nextArea s"
  "emitted (updArea r f s) = emitted s"
  by (simp_all add: updArea_def)

lemma findArea_cong:
  "conversationAreas s' = conversationAreas s \<Longrightarrow>
   (\<And>a. label (areaObjs s' a) = label (areaObjs s a)) \<Longrightarrow> findArea l s' = findArea l s"
  by (simp add: findArea_def)

lemma findPlayer_cong:
  "players s' = players s \<Longrightarrow>
   (\<And>q. player_id (playerObjs s' q) = player_id (playerObjs s q)) \<Longrightarrow>
   findPlayer i s' = findPlayer i s"
  by (simp add: findPlayer_def)

lemma onlyRequestsChanged_refl: "onlyRequestsChanged s s"
  by (simp add: onlyRequestsChanged_def)

lemma onlyRequestsChanged_trans:
  assumes "onlyRequestsChanged s t" and "onlyRequestsChanged t u"
  shows "onlyRequestsChanged s u"
proof -
  have a: "areaObjs u a = (areaObjs s a)\<lparr>joinRequests := joinRequests (areaObjs u a)\<rparr>" for a
  proof -
    from assms have "areaObjs t a = (areaObjs s a)\<lparr>joinRequests := joinRequests (areaObjs t a)\<rparr>"
      and "areaObjs u a = (areaObjs t a)\<lparr>joinRequests := joinRequests (areaObjs u a)\<rparr>"
      by (simp_all add: onlyRequestsChanged_def)
    then show ?thesis
      by (metis (no_types, lifting) ServerConversationArea.surjective
          ServerConversationArea.update_convs(7))
  qed
  have q: "playerObjs u q
             = (playerObjs s q)\<lparr>activeJoinRequest := activeJoinRequest (playerObjs u q)\<rparr>" for q
  proof -
    from assms
    have "playerObjs t q = (playerObjs s q)\<lparr>activeJoinRequest := activeJoinRequest (playerObjs t q)\<rparr>"
      and "playerObjs u q = (playerObjs t q)\<lparr>activeJoinRequest := activeJoinRequest (playerObjs u q)\<rparr>"
      by (simp_all add: onlyRequestsChanged_def)
    then show ?thesis
      by (metis (no_types, lifting) Player.surjective Player.update_convs(6))
  qed
  from assms obtain es es' where "emitted t = emitted s @ es" and "emitted u = emitted t @ es'"
    by (auto simp: onlyRequestsChanged_def)
  then have e: "\<exists>xs. emitted u = emitted s @ xs" by simp
  from assms a q e show ?thesis
    unfolding onlyRequestsChanged_def by (intro conjI allI) simp_all
qed

lemma removeJoinRequest_only: "onlyRequestsChanged s (snd (removeJoinRequest jr s))"
  by (simp add: removeJoinRequest_def onlyRequestsChanged_def Let_def split: option.splits)

lemma removeAll_only: "onlyRequestsChanged s (removeAll jrs s)"
proof (induction jrs arbitrary: s)
  case Nil
  show ?case by (simp add: removeAll_def onlyRequestsChanged_refl)
next
  case (Cons jr jrs)
  have "onlyRequestsChanged (snd (removeJoinRequest jr s)) (removeAll jrs (snd (removeJoinRequest jr s)))"
    by (rule Cons.IH)
  with removeJoinRequest_only [of s jr] show ?case
    by (auto simp: removeAll_def intro: onlyRequestsChanged_trans)
qed



lemma onlyRequestsChanged_area:
  assumes "onlyRequestsChanged s s'"
  shows "label (areaObjs s' a) = label (areaObjs s a)"
    and "topic (areaObjs s' a) = topic (areaObjs s a)"
    and "occupantsByID (areaObjs s' a) = occupantsByID (areaObjs s a)"
    and "boundingBox (areaObjs s' a) = boundingBox (areaObjs s a)"
    and "status (areaObjs s' a) = status (areaObjs s a)"
    and "maxOccupants (areaObjs s' a) = maxOccupants (areaObjs s a)"
proof -
  from assms have e: "areaObjs s' a = (areaObjs s a)\<lparr>joinRequests := joinRequests (areaObjs s' a)\<rparr>"
    by (simp add: onlyRequestsChanged_def)
  show "label (areaObjs s' a) = label (areaObjs s a)" by (subst e) simp
  show "topic (areaObjs s' a) = topic (areaObjs s a)" by (subst e) simp
  show "occupantsByID (areaObjs s' a) = occupantsByID (areaObjs s a)" by (subst e) simp
  show "boundingBox (areaObjs s' a) = boundingBox (areaObjs s a)" by (subst e) simp
  show "status (areaObjs s' a) = status (areaObjs s a)" by (subst e) simp
  show "maxOccupants (areaObjs s' a) = maxOccupants (areaObjs s a)" by (subst e) simp
qed

lemma onlyRequestsChanged_player:
  assumes "onlyRequestsChanged s s'"
  shows "player_id (playerObjs s' q) = player_id (playerObjs s q)"
    and "userName (playerObjs s' q) = userName (playerObjs s q)"
    and "location (playerObjs s' q) = location (playerObjs s q)"
    and "permissions (playerObjs s' q) = permissions (playerObjs s q)"
    and "activeConversationArea (playerObjs s' q) = activeConversationArea (playerObjs s q)"
proof -
  from assms have e: "playerObjs s' q = (playerObjs s q)\<lparr>activeJoinRequest := activeJoinRequest (playerObjs s' q)\<rparr>"
    by (simp add: onlyRequestsChanged_def)
  show "player_id (playerObjs s' q) = player_id (playerObjs s q)" by (subst e) simp
  show "userName (playerObjs s' q) = userName (playerObjs s q)" by (subst e) simp
  show "location (playerObjs s' q) = location (playerObjs s q)" by (subst e) simp
  show "permissions (playerObjs s' q) = permissions (playerObjs s q)" by (subst e) simp
  show "activeConversationArea (playerObjs s' q) = activeConversationArea (playerObjs s q)" by (subst e) simp
qed

lemma onlyRequestsChanged_lists:
  assumes "onlyRequestsChanged s s'"
  shows "players s' = players s" and "sessions s' = sessions s" and "listeners s' = listeners s"
    and "conversationAreas s' = conversationAreas s"
    and "nextPlayer s' = nextPlayer s" and "nextArea s' = nextArea s"
  using assms by (simp_all add: onlyRequestsChanged_def)

lemma onlyRequestsChanged_findArea:
  "onlyRequestsChanged s s' \<Longrightarrow> findArea l s' = findArea l s"
  by (rule findArea_cong) (simp_all add: onlyRequestsChanged_lists onlyRequestsChanged_area)

lemma onlyRequestsChanged_findPlayer:
  "onlyRequestsChanged s s' \<Longrightarrow> findPlayer i s' = findPlayer i s"
  by (rule findPlayer_cong) (simp_all add: onlyRequestsChanged_lists onlyRequestsChanged_player)

lemma findArea_in_list: "findArea l s = Some ca \<Longrightarrow> ca \<in> set (conversationAreas s)"
  by (auto simp: findArea_def find_Some_iff)

lemma findArea_label: "findArea l s = Some ca \<Longrightarrow> label (areaObjs s ca) = l"
  by (auto simp: findArea_def find_Some_iff)

lemma findPlayer_in_list: "findPlayer i s = Some q \<Longrightarrow> q \<in> set (players s)"
  by (auto simp: findPlayer_def find_Some_iff)

lemma findPlayer_id: "findPlayer i s = Some q \<Longrightarrow> player_id (playerObjs s q) = i"
  by (auto simp: findPlayer_def find_Some_iff)


lemmas removeAll_frame =
  onlyRequestsChanged_lists [OF removeAll_only]
  onlyRequestsChanged_area [OF removeAll_only]
  onlyRequestsChanged_player [OF removeAll_only]

lemmas removeJoinRequest_frame =
  onlyRequestsChanged_lists [OF removeJoinRequest_only]
  onlyRequestsChanged_area [OF removeJoinRequest_only]
  onlyRequestsChanged_player [OF removeJoinRequest_only]

lemma acceptJoinRequest_fst:
  "fst (acceptJoinRequest jr s)
     = (findArea (jr_conversationLabel jr) s \<noteq> None \<and> findPlayer (jr_playerId jr) s \<noteq> None)"
  by (simp add: acceptJoinRequest_def Let_def split: option.splits)

lemma acceptJoinRequest_occupants:
  assumes "findArea (jr_conversationLabel jr) s = Some ca"
    and "findPlayer (jr_playerId jr) s = Some p"
  shows "occupantsByID (areaObjs (snd (acceptJoinRequest jr s)) a)
           = (if a = ca then occupantsByID (areaObjs s ca) @ [jr_playerId jr]
              else occupantsByID (areaObjs s a))"
  using assms findPlayer_id [OF assms(2)]
  by (simp add: acceptJoinRequest_def Let_def removeAll_frame)

lemma acceptJoinRequest_maxOccupants:
  "maxOccupants (areaObjs (snd (acceptJoinRequest jr s)) a) = maxOccupants (areaObjs s a)"
  by (simp add: acceptJoinRequest_def Let_def removeAll_frame split: option.splits)

subsection \<open>What an acceptance leaves alone\<close>

lemma onlyMembershipChanged_refl: "onlyMembershipChanged s s"
  by (simp add: onlyMembershipChanged_def)

lemma onlyMembershipChanged_area:
  assumes "onlyMembershipChanged s s'"
  shows "label (areaObjs s' a) = label (areaObjs s a)"
    and "topic (areaObjs s' a) = topic (areaObjs s a)"
    and "boundingBox (areaObjs s' a) = boundingBox (areaObjs s a)"
    and "status (areaObjs s' a) = status (areaObjs s a)"
    and "maxOccupants (areaObjs s' a) = maxOccupants (areaObjs s a)"
proof -
  from assms have e: "areaObjs s' a = (areaObjs s a)\<lparr>occupantsByID := occupantsByID (areaObjs s' a),
                                          joinRequests := joinRequests (areaObjs s' a)\<rparr>"
    by (simp add: onlyMembershipChanged_def)
  show "label (areaObjs s' a) = label (areaObjs s a)" by (subst e) simp
  show "topic (areaObjs s' a) = topic (areaObjs s a)" by (subst e) simp
  show "boundingBox (areaObjs s' a) = boundingBox (areaObjs s a)" by (subst e) simp
  show "status (areaObjs s' a) = status (areaObjs s a)" by (subst e) simp
  show "maxOccupants (areaObjs s' a) = maxOccupants (areaObjs s a)" by (subst e) simp
qed

lemma onlyMembershipChanged_player:
  assumes "onlyMembershipChanged s s'"
  shows "player_id (playerObjs s' q) = player_id (playerObjs s q)"
    and "userName (playerObjs s' q) = userName (playerObjs s q)"
    and "permissions (playerObjs s' q) = permissions (playerObjs s q)"
proof -
  from assms have e: "playerObjs s' q
            = (playerObjs s q)\<lparr>location := location (playerObjs s' q),
                                activeConversationArea := activeConversationArea (playerObjs s' q),
                                activeJoinRequest := activeJoinRequest (playerObjs s' q)\<rparr>"
    by (simp add: onlyMembershipChanged_def)
  show "player_id (playerObjs s' q) = player_id (playerObjs s q)" by (subst e) simp
  show "userName (playerObjs s' q) = userName (playerObjs s q)" by (subst e) simp
  show "permissions (playerObjs s' q) = permissions (playerObjs s q)" by (subst e) simp
qed

lemma onlyMembershipChanged_lists:
  assumes "onlyMembershipChanged s s'"
  shows "players s' = players s" and "sessions s' = sessions s" and "listeners s' = listeners s"
    and "conversationAreas s' = conversationAreas s"
    and "nextPlayer s' = nextPlayer s" and "nextArea s' = nextArea s"
  using assms by (simp_all add: onlyMembershipChanged_def)

lemma onlyMembershipChanged_emitted:
  "onlyMembershipChanged s s' \<Longrightarrow> \<exists>es. emitted s' = emitted s @ es"
  by (simp add: onlyMembershipChanged_def)

lemma onlyMembershipChanged_trans:
  assumes "onlyMembershipChanged s t" and "onlyMembershipChanged t u"
  shows "onlyMembershipChanged s u"
proof -
  have a: "areaObjs u a = (areaObjs s a)\<lparr>occupantsByID := occupantsByID (areaObjs u a),
                                          joinRequests := joinRequests (areaObjs u a)\<rparr>" for a
  proof -
    from assms(2) have "areaObjs u a = (areaObjs t a)\<lparr>occupantsByID := occupantsByID (areaObjs u a),
                                          joinRequests := joinRequests (areaObjs u a)\<rparr>"
      by (simp add: onlyMembershipChanged_def)
    moreover from assms(1)
    have "areaObjs t a = (areaObjs s a)\<lparr>occupantsByID := occupantsByID (areaObjs t a),
                                          joinRequests := joinRequests (areaObjs t a)\<rparr>"
      by (simp add: onlyMembershipChanged_def)
    ultimately have "areaObjs u a = (areaObjs s a)\<lparr>occupantsByID := occupantsByID (areaObjs t a),
                                          joinRequests := joinRequests (areaObjs t a)\<rparr>
                         \<lparr>occupantsByID := occupantsByID (areaObjs u a),
                                          joinRequests := joinRequests (areaObjs u a)\<rparr>"
      by simp
    then show ?thesis by simp
  qed
  have q: "playerObjs u q
            = (playerObjs s q)\<lparr>location := location (playerObjs u q),
                                activeConversationArea := activeConversationArea (playerObjs u q),
                                activeJoinRequest := activeJoinRequest (playerObjs u q)\<rparr>" for q
  proof -
    from assms(2) have "playerObjs u q
            = (playerObjs t q)\<lparr>location := location (playerObjs u q),
                                activeConversationArea := activeConversationArea (playerObjs u q),
                                activeJoinRequest := activeJoinRequest (playerObjs u q)\<rparr>"
      by (simp add: onlyMembershipChanged_def)
    moreover from assms(1) have "playerObjs t q
            = (playerObjs s q)\<lparr>location := location (playerObjs t q),
                                activeConversationArea := activeConversationArea (playerObjs t q),
                                activeJoinRequest := activeJoinRequest (playerObjs t q)\<rparr>"
      by (simp add: onlyMembershipChanged_def)
    ultimately have "playerObjs u q
            = (playerObjs s q)\<lparr>location := location (playerObjs t q),
                                activeConversationArea := activeConversationArea (playerObjs t q),
                                activeJoinRequest := activeJoinRequest (playerObjs t q)\<rparr>
                 \<lparr>location := location (playerObjs u q),
                                activeConversationArea := activeConversationArea (playerObjs u q),
                                activeJoinRequest := activeJoinRequest (playerObjs u q)\<rparr>"
      by simp
    then show ?thesis by simp
  qed
  from assms obtain es es' where "emitted t = emitted s @ es" and "emitted u = emitted t @ es'"
    by (auto simp: onlyMembershipChanged_def)
  then have e: "\<exists>xs. emitted u = emitted s @ xs" by simp
  from assms a q e show ?thesis
    unfolding onlyMembershipChanged_def by (intro conjI allI) simp_all
qed

lemma onlyRequestsChanged_membership:
  assumes "onlyRequestsChanged s s'"
  shows "onlyMembershipChanged s s'"
proof -
  have a: "areaObjs s' a = (areaObjs s a)\<lparr>occupantsByID := occupantsByID (areaObjs s' a),
                                          joinRequests := joinRequests (areaObjs s' a)\<rparr>" for a
  proof -
    from assms have e: "areaObjs s' a = (areaObjs s a)\<lparr>joinRequests := joinRequests (areaObjs s' a)\<rparr>"
      by (simp add: onlyRequestsChanged_def)
    have "occupantsByID (areaObjs s' a) = occupantsByID (areaObjs s a)" by (subst e) simp
    with e show ?thesis by simp
  qed
  have q: "playerObjs s' q
            = (playerObjs s q)\<lparr>location := location (playerObjs s' q),
                                activeConversationArea := activeConversationArea (playerObjs s' q),
                                activeJoinRequest := activeJoinRequest (playerObjs s' q)\<rparr>" for q
  proof -
    from assms have e: "playerObjs s' q
            = (playerObjs s q)\<lparr>activeJoinRequest := activeJoinRequest (playerObjs s' q)\<rparr>"
      by (simp add: onlyRequestsChanged_def)
    have "location (playerObjs s' q) = location (playerObjs s q)"
      and "activeConversationArea (playerObjs s' q) = activeConversationArea (playerObjs s q)"
      by (subst e, simp)+
    with e show ?thesis by simp
  qed
  from assms a q show ?thesis
    unfolding onlyMembershipChanged_def onlyRequestsChanged_def by (intro conjI allI) simp_all
qed

lemma acceptJoinRequest_membership: "onlyMembershipChanged s (snd (acceptJoinRequest jr s))"
proof (cases "findArea (jr_conversationLabel jr) s")
  case None
  then show ?thesis by (simp add: acceptJoinRequest_def onlyMembershipChanged_refl)
next
  case (Some ca)
  show ?thesis
  proof (cases "findPlayer (jr_playerId jr) s")
    case None
    with Some show ?thesis by (simp add: acceptJoinRequest_def onlyMembershipChanged_refl)
  next
    case (Some p)
    define s5 where "s5 = updPlayer p (\<lambda>pl. pl\<lparr>activeJoinRequest := None\<rparr>)
      (updArea ca (\<lambda>a. a\<lparr>joinRequests :=
           filter (\<lambda>request. jr_id request \<noteq> jr_id jr) (joinRequests a)\<rparr>)
        (updPlayer p (\<lambda>pl. pl\<lparr>location :=
             (location pl)\<lparr>conversationLabel := Some (label (areaObjs s ca))\<rparr>\<rparr>)
          (updPlayer p (\<lambda>pl. pl\<lparr>activeConversationArea := Some ca\<rparr>)
            (updArea ca (\<lambda>a. a\<lparr>occupantsByID :=
                occupantsByID a @ [player_id (playerObjs s p)]\<rparr>) s))))"
    define s6 where "s6 = (if maxOccupants (areaObjs s5 ca)
                          = Some (real (length (occupantsByID (areaObjs s5 ca))))
                       then removeAll (joinRequests (areaObjs s5 ca)) s5 else s5)"
    have r: "snd (acceptJoinRequest jr s) = emitAll [PlayerMoved p, ConversationAreaUpdated ca] s6"
      using \<open>findArea (jr_conversationLabel jr) s = Some ca\<close> Some
      by (simp add: acceptJoinRequest_def Let_def s5_def s6_def)
    have m5: "onlyMembershipChanged s s5"
      by (simp add: onlyMembershipChanged_def s5_def)
    have "onlyRequestsChanged s5 s6"
      by (simp add: s6_def removeAll_only onlyRequestsChanged_refl)
    then have "onlyMembershipChanged s5 s6" by (rule onlyRequestsChanged_membership)
    with m5 have m6: "onlyMembershipChanged s s6" by (rule onlyMembershipChanged_trans)
    have "onlyMembershipChanged s6 (emitAll [PlayerMoved p, ConversationAreaUpdated ca] s6)"
      by (simp add: onlyMembershipChanged_def)
    with m6 show ?thesis unfolding r by (rule onlyMembershipChanged_trans)
  qed
qed

lemma acceptAll_Cons: "acceptAll (jr # jrs) s = acceptAll jrs (snd (acceptJoinRequest jr s))"
  by (simp add: acceptAll_def)

lemma acceptAll_membership: "onlyMembershipChanged s (acceptAll jrs s)"
proof (induction jrs arbitrary: s)
  case Nil
  show ?case by (simp add: acceptAll_def onlyMembershipChanged_refl)
next
  case (Cons jr jrs)
  from acceptJoinRequest_membership Cons.IH show ?case
    unfolding acceptAll_Cons by (rule onlyMembershipChanged_trans)
qed

lemma onlyMembershipChanged_findArea:
  "onlyMembershipChanged s s' \<Longrightarrow> findArea l s' = findArea l s"
  by (rule findArea_cong) (simp_all add: onlyMembershipChanged_lists onlyMembershipChanged_area)

lemma onlyMembershipChanged_findPlayer:
  "onlyMembershipChanged s s' \<Longrightarrow> findPlayer i s' = findPlayer i s"
  by (rule findPlayer_cong) (simp_all add: onlyMembershipChanged_lists onlyMembershipChanged_player)

subsection \<open>The accept-all cascade\<close>

lemma acceptJoinRequest_activeArea:
  "activeConversationArea (playerObjs (snd (acceptJoinRequest jr s)) q)
     = (case findArea (jr_conversationLabel jr) s of
          None \<Rightarrow> activeConversationArea (playerObjs s q)
        | Some ca \<Rightarrow>
           (case findPlayer (jr_playerId jr) s of
              None \<Rightarrow> activeConversationArea (playerObjs s q)
            | Some p \<Rightarrow> if q = p then Some ca else activeConversationArea (playerObjs s q)))"
  by (simp add: acceptJoinRequest_def Let_def removeAll_frame split: option.splits)

lemma acceptJoinRequest_occupants_grow:
  "set (occupantsByID (areaObjs s a)) \<subseteq> set (occupantsByID (areaObjs (snd (acceptJoinRequest jr s)) a))"
proof (cases "findArea (jr_conversationLabel jr) s")
  case None
  then show ?thesis by (simp add: acceptJoinRequest_def)
next
  case (Some ca)
  show ?thesis
  proof (cases "findPlayer (jr_playerId jr) s")
    case None
    with Some show ?thesis by (simp add: acceptJoinRequest_def)
  next
    case (Some p)
    from acceptJoinRequest_occupants [OF \<open>findArea (jr_conversationLabel jr) s = Some ca\<close> Some]
    show ?thesis by auto
  qed
qed

lemma acceptAll_occupants_grow:
  "set (occupantsByID (areaObjs s a)) \<subseteq> set (occupantsByID (areaObjs (acceptAll jrs s) a))"
proof (induction jrs arbitrary: s)
  case Nil
  show ?case by (simp add: acceptAll_def)
next
  case (Cons jr jrs)
  from acceptJoinRequest_occupants_grow [of s a jr] Cons.IH [of "snd (acceptJoinRequest jr s)"]
  show ?case unfolding acceptAll_Cons by blast
qed

lemma acceptAll_keeps_member:
  assumes "\<forall>jr \<in> set jrs. findArea (jr_conversationLabel jr) s = Some c"
    and "activeConversationArea (playerObjs s q) = Some c"
  shows "activeConversationArea (playerObjs (acceptAll jrs s) q) = Some c"
  using assms
proof (induction jrs arbitrary: s)
  case Nil
  then show ?case by (simp add: acceptAll_def)
next
  case (Cons jr jrs)
  let ?t = "snd (acceptJoinRequest jr s)"
  have m: "onlyMembershipChanged s ?t" by (rule acceptJoinRequest_membership)
  from Cons.prems(1) have "\<forall>x \<in> set jrs. findArea (jr_conversationLabel x) ?t = Some c"
    by (simp add: onlyMembershipChanged_findArea [OF m])
  moreover from Cons.prems have "activeConversationArea (playerObjs ?t q) = Some c"
    by (simp add: acceptJoinRequest_activeArea split: option.splits)
  ultimately show ?case unfolding acceptAll_Cons by (rule Cons.IH)
qed

lemma acceptAll_accepts:
  assumes "\<forall>jr \<in> set jrs. findArea (jr_conversationLabel jr) s = Some c"
    and "jr \<in> set jrs" and "findPlayer (jr_playerId jr) s = Some q"
  shows "jr_playerId jr \<in> set (occupantsByID (areaObjs (acceptAll jrs s) c)) \<and>
         activeConversationArea (playerObjs (acceptAll jrs s) q) = Some c"
  using assms
proof (induction jrs arbitrary: s)
  case Nil
  then show ?case by simp
next
  case (Cons x jrs)
  let ?t = "snd (acceptJoinRequest x s)"
  have m: "onlyMembershipChanged s ?t" by (rule acceptJoinRequest_membership)
  from Cons.prems(1) have H: "\<forall>y \<in> set jrs. findArea (jr_conversationLabel y) ?t = Some c"
    by (simp add: onlyMembershipChanged_findArea [OF m])
  show ?case
  proof (cases "jr = x")
    case True
    from Cons.prems(1) True have fa: "findArea (jr_conversationLabel jr) s = Some c" by simp
    from fa Cons.prems(3) True have "activeConversationArea (playerObjs ?t q) = Some c"
      by (simp add: acceptJoinRequest_activeArea)
    with H have "activeConversationArea (playerObjs (acceptAll jrs ?t) q) = Some c"
      by (rule acceptAll_keeps_member)
    moreover from acceptJoinRequest_occupants [OF fa Cons.prems(3), of c] True
    have "jr_playerId jr \<in> set (occupantsByID (areaObjs ?t c))" by simp
    with acceptAll_occupants_grow [of ?t c jrs]
    have "jr_playerId jr \<in> set (occupantsByID (areaObjs (acceptAll jrs ?t) c))" by blast
    ultimately show ?thesis unfolding acceptAll_Cons by simp
  next
    case False
    with Cons.prems(2) have "jr \<in> set jrs" by simp
    moreover from Cons.prems(3) have "findPlayer (jr_playerId jr) ?t = Some q"
      by (simp add: onlyMembershipChanged_findPlayer [OF m])
    ultimately show ?thesis unfolding acceptAll_Cons using H Cons.IH by blast
  qed
qed

lemma removeJoinRequest_keeps_others:
  "jr \<in> set (joinRequests (areaObjs s a)) \<Longrightarrow> jr_id jr \<noteq> jr_id x \<Longrightarrow>
   jr \<in> set (joinRequests (areaObjs (snd (removeJoinRequest x s)) a))"
  by (simp add: removeJoinRequest_def Let_def split: option.splits)

lemma removeJoinRequest_requests_subset:
  "set (joinRequests (areaObjs (snd (removeJoinRequest x s)) a)) \<subseteq> set (joinRequests (areaObjs s a))"
  by (auto simp: removeJoinRequest_def Let_def split: option.splits if_splits)

subsection \<open>The list of active areas\<close>

lemma areasShrink_refl: "areasShrink s s"
  by (simp add: areasShrink_def)

lemma areasShrink_trans: "areasShrink s t \<Longrightarrow> areasShrink t u \<Longrightarrow> areasShrink s u"
  by (auto simp: areasShrink_def)

lemma onlyMembershipChanged_shrink: "onlyMembershipChanged s s' \<Longrightarrow> areasShrink s s'"
  by (simp add: areasShrink_def onlyMembershipChanged_lists onlyMembershipChanged_area)

lemma areasShrink_updPlayer: "areasShrink s t \<Longrightarrow> areasShrink s (updPlayer r f t)"
  by (simp add: areasShrink_def)

lemma areasShrink_updArea:
  "(\<And>x. boundingBox (f x) = boundingBox x) \<Longrightarrow> areasShrink s t \<Longrightarrow> areasShrink s (updArea r f t)"
  by (simp add: areasShrink_def)

lemma areasShrink_emit: "areasShrink s t \<Longrightarrow> areasShrink s (emit e t)"
  by (simp add: areasShrink_def)

lemma areasShrink_emitAll: "areasShrink s t \<Longrightarrow> areasShrink s (emitAll es t)"
  by (simp add: areasShrink_def)

lemma areasShrink_removeJoinRequest:
  "areasShrink s t \<Longrightarrow> areasShrink s (snd (removeJoinRequest jr t))"
  using onlyMembershipChanged_shrink [OF onlyRequestsChanged_membership [OF removeJoinRequest_only]]
  by (rule areasShrink_trans [rotated])

lemma areasShrink_removeAll: "areasShrink s t \<Longrightarrow> areasShrink s (removeAll jrs t)"
  using onlyMembershipChanged_shrink [OF onlyRequestsChanged_membership [OF removeAll_only]]
  by (rule areasShrink_trans [rotated])

lemma areasShrink_acceptJoinRequest:
  "areasShrink s t \<Longrightarrow> areasShrink s (snd (acceptJoinRequest jr t))"
  using onlyMembershipChanged_shrink [OF acceptJoinRequest_membership]
  by (rule areasShrink_trans [rotated])

lemma areasShrink_acceptAll: "areasShrink s t \<Longrightarrow> areasShrink s (acceptAll jrs t)"
  using onlyMembershipChanged_shrink [OF acceptAll_membership]
  by (rule areasShrink_trans [rotated])

lemma areasShrink_splice:
  "areasShrink s t \<Longrightarrow>
   areasShrink s (t\<lparr>conversationAreas :=
                      (if c \<in> set (conversationAreas t) then remove1 c (conversationAreas t)
                       else butlast (conversationAreas t))\<rparr>)"
  by (auto simp: areasShrink_def distinct_butlast dest: in_set_butlastD notin_set_remove1)

lemma areasShrink_if:
  "(b \<Longrightarrow> areasShrink s x) \<Longrightarrow> (\<not> b \<Longrightarrow> areasShrink s y) \<Longrightarrow>
   areasShrink s (if b then x else y)"
  by simp

lemma areasShrink_option:
  "(v = None \<Longrightarrow> areasShrink s x) \<Longrightarrow> (\<And>w. v = Some w \<Longrightarrow> areasShrink s (f w)) \<Longrightarrow>
   areasShrink s (case v of None \<Rightarrow> x | Some w \<Rightarrow> f w)"
  by (cases v) simp_all

lemma areasShrink_Let: "areasShrink s (f x) \<Longrightarrow> areasShrink s (Let x f)"
  by simp

lemma areasShrink_snd_if:
  "(b \<Longrightarrow> areasShrink s (snd x)) \<Longrightarrow> (\<not> b \<Longrightarrow> areasShrink s (snd y)) \<Longrightarrow>
   areasShrink s (snd (if b then x else y))"
  by simp

lemma areasShrink_snd_option:
  "(v = None \<Longrightarrow> areasShrink s (snd x)) \<Longrightarrow> (\<And>w. v = Some w \<Longrightarrow> areasShrink s (snd (f w))) \<Longrightarrow>
   areasShrink s (snd (case v of None \<Rightarrow> x | Some w \<Rightarrow> f w))"
  by (cases v) simp_all

lemma areasShrink_snd_Let: "areasShrink s (snd (f x)) \<Longrightarrow> areasShrink s (snd (Let x f))"
  by simp

lemma areasShrink_snd_Pair: "areasShrink s t \<Longrightarrow> areasShrink s (snd (r, t))"
  by simp

lemmas shrink_intros =
  areasShrink_updPlayer areasShrink_updArea areasShrink_emit areasShrink_emitAll
  areasShrink_removeJoinRequest areasShrink_removeAll areasShrink_acceptJoinRequest
  areasShrink_acceptAll areasShrink_splice
  areasShrink_if areasShrink_option areasShrink_Let
  areasShrink_snd_if areasShrink_snd_option areasShrink_snd_Let areasShrink_snd_Pair

lemma areasShrink_removePlayer:
  "areasShrink s t \<Longrightarrow> areasShrink s (removePlayerFromConversationArea p c t)"
  unfolding removePlayerFromConversationArea_def
  by (intro shrink_intros) simp_all

lemma areasShrink_destroySession:
  "areasShrink s (destroySession session s)"
  unfolding destroySession_def
  by (intro shrink_intros areasShrink_removePlayer) (simp_all add: areasShrink_def)

lemma areasShrink_updatePlayerLocation:
  "areasShrink s (updatePlayerLocation p loc s)"
  unfolding updatePlayerLocation_def
  by (intro shrink_intros areasShrink_removePlayer) (simp_all add: areasShrink_refl)

lemma areasShrink_updateConversationArea:
  "areasShrink s (snd (updateConversationArea lbl p st mo s))"
  unfolding updateConversationArea_def
  by (intro shrink_intros) (simp_all add: areasShrink_refl)

lemma areasShrink_createJoinRequest:
  "areasShrink s (snd (createJoinRequest inside newId lbl p s))"
  unfolding createJoinRequest_def
  by (intro shrink_intros) (simp_all add: areasShrink_refl)

lemma areasShrink_updateJoinRequest:
  "areasShrink s (snd (updateJoinRequest p decision jr s))"
  unfolding updateJoinRequest_def
  by (intro shrink_intros) (simp_all add: areasShrink_refl)

lemma areasShrink_addPlayer: "areasShrink s (snd (addPlayer newPlayer tok video s))"
  by (simp add: addPlayer_def Let_def areasShrink_def split: sum.splits)

lemma areasShrink_listeners:
  "areasShrink s (addTownListener l s)" "areasShrink s (removeTownListener l s)"
  by (simp_all add: addTownListener_def removeTownListener_def areasShrink_def)

lemma boxesOverlap_sym: "boxesOverlap a b = boxesOverlap b a"
  by (auto simp: boxesOverlap_def Let_def)

lemma noOverlaps_shrink:
  assumes "noOverlaps s" and "areasShrink s s'"
  shows "noOverlaps s'"
  using assms unfolding noOverlaps_def areasShrink_def by (auto simp: subset_iff)

lemma fold_updPlayer_fields:
  "areaObjs (fold (\<lambda>q t. updPlayer q (f q) t) qs s) = areaObjs s"
  "conversationAreas (fold (\<lambda>q t. updPlayer q (f q) t) qs s) = conversationAreas s"
  "nextArea (fold (\<lambda>q t. updPlayer q (f q) t) qs s) = nextArea s"
  by (induction qs arbitrary: s) simp_all

lemma noOverlaps_addConversationArea:
  assumes "noOverlaps s"
  shows "noOverlaps (snd (addConversationArea inside ca p s))"
proof (cases "fst (addConversationArea inside ca p s)")
  case False
  then have "snd (addConversationArea inside ca p s) = s"
    by (simp add: addConversationArea_def Let_def split: if_splits)
  with assms show ?thesis by simp
next
  case True
  let ?s' = "snd (addConversationArea inside ca p s)"
  from True have free: "find (\<lambda>a. boxesOverlap (boundingBox (areaObjs s a)) (boundingBox ca))
               (conversationAreas s) = None"
    by (simp add: addConversationArea_def Let_def split: if_splits)
  then have apart: "\<not> boxesOverlap (boundingBox (areaObjs s a)) (boundingBox ca)"
    if "a \<in> set (conversationAreas s)" for a
    using that by (auto simp: find_None_iff)
  from True have l: "conversationAreas ?s' = conversationAreas s @ [nextArea s]"
    and n: "nextArea ?s' = Suc (nextArea s)"
    and b: "boundingBox (areaObjs ?s' a)
              = (if a = nextArea s then boundingBox ca else boundingBox (areaObjs s a))" for a
    by (simp_all add: addConversationArea_def Let_def fold_updPlayer_fields split: if_splits)
  from assms have old: "a < nextArea s" if "a \<in> set (conversationAreas s)" for a
    using that by (simp add: noOverlaps_def)
  then have fresh: "nextArea s \<notin> set (conversationAreas s)" by blast
  from assms have d: "distinct (conversationAreas s)"
    and o: "\<And>a b. a \<in> set (conversationAreas s) \<Longrightarrow> b \<in> set (conversationAreas s) \<Longrightarrow> a \<noteq> b \<Longrightarrow>
              \<not> boxesOverlap (boundingBox (areaObjs s a)) (boundingBox (areaObjs s b))"
    by (auto simp: noOverlaps_def)
  show ?thesis
    unfolding noOverlaps_def l n
  proof (intro conjI ballI impI)
    show "distinct (conversationAreas s @ [nextArea s])" using d fresh by simp
  next
    fix a assume "a \<in> set (conversationAreas s @ [nextArea s])"
    then show "a < Suc (nextArea s)" using old by (auto simp: less_Suc_eq)
  next
    fix a b
    assume a: "a \<in> set (conversationAreas s @ [nextArea s])"
      and b': "b \<in> set (conversationAreas s @ [nextArea s])" and ne: "a \<noteq> b"
    show "\<not> boxesOverlap (boundingBox (areaObjs ?s' a)) (boundingBox (areaObjs ?s' b))"
    proof (cases "a = nextArea s")
      case True
      with ne b' have "b \<in> set (conversationAreas s)" "b \<noteq> nextArea s" by auto
      with True apart [of b] show ?thesis by (simp add: b boxesOverlap_sym [of "boundingBox ca"])
    next
      case False
      with a have a': "a \<in> set (conversationAreas s)" by auto
      show ?thesis
      proof (cases "b = nextArea s")
        case True
        with False apart [OF a'] show ?thesis by (simp add: b)
      next
        case False
        with b' have "b \<in> set (conversationAreas s)" by auto
        with a' ne o \<open>a \<noteq> nextArea s\<close> False show ?thesis by (simp add: b)
      qed
    qed
  qed
qed

lemma reachable_noOverlaps: "reachable inside s \<Longrightarrow> noOverlaps s"
proof (induction rule: reachable.induct)
  case r_new
  show ?case by (simp add: noOverlaps_def newTown_def)
next
  case (r_addConversationArea s p ca)
  then show ?case by (simp add: noOverlaps_addConversationArea)
qed (erule noOverlaps_shrink,
     rule areasShrink_listeners areasShrink_addPlayer areasShrink_destroySession
          areasShrink_updatePlayerLocation areasShrink_removePlayer [OF areasShrink_refl]
          areasShrink_updateConversationArea areasShrink_createJoinRequest
          areasShrink_updateJoinRequest areasShrink_acceptJoinRequest [OF areasShrink_refl]
          areasShrink_removeJoinRequest [OF areasShrink_refl])+

section \<open>Joining the town\<close>

text \<open>
  C1 (as amended).  When the video-credential call fails, \<open>addPlayer\<close> fails as a whole: the
  failure is handed to the caller and no player-joined event reaches any listener.  The player
  and the session were pushed before the call, and they stay in the players and sessions lists.
\<close>

theorem addPlayer_video_failure:
  "fst (addPlayer newPlayer tok (Inl e) s) = Inl e \<and>
   players (snd (addPlayer newPlayer tok (Inl e) s)) = players s @ [nextPlayer s] \<and>
   sessions (snd (addPlayer newPlayer tok (Inl e) s))
     = sessions s @ [\<lparr>player = nextPlayer s, sessionToken = tok, videoToken = None\<rparr>] \<and>
   playerObjs (snd (addPlayer newPlayer tok (Inl e) s)) (nextPlayer s) = newPlayer \<and>
   emitted (snd (addPlayer newPlayer tok (Inl e) s)) = emitted s"
  by (simp add: addPlayer_def Let_def)

text \<open>
  C1, counterexample.  In a new town the join of player A with a failing video-credential call
  leaves A in the players list and A's session in the sessions list: the state has changed.
\<close>

theorem addPlayer_video_failure_registers:
  "fst (addPlayer (playerNamed ''A'') ''sA'' (Inl VideoClientError) newTown) = Inl VideoClientError \<and>
   players newTown = [] \<and> sessions newTown = [] \<and>
   players (snd (addPlayer (playerNamed ''A'') ''sA'' (Inl VideoClientError) newTown)) = [0] \<and>
   sessions (snd (addPlayer (playerNamed ''A'') ''sA'' (Inl VideoClientError) newTown))
     = [\<lparr>player = 0, sessionToken = ''sA'', videoToken = None\<rparr>]"
  by code_simp

section \<open>Capacity\<close>

text \<open>
  C2 (as amended).  A successful \<open>acceptJoinRequest\<close> changes no area's \<open>maxOccupants\<close> and adds
  exactly one occupant, the requesting player, to the area that the request names; every other
  occupant list is unchanged.  So for an area with a capacity that had a free place before the
  call (occupants + 1 \<open>\<le>\<close> \<open>maxOccupants\<close>), the occupants do not exceed \<open>maxOccupants\<close> after it.
\<close>

theorem acceptJoinRequest_capacity:
  assumes "fst (acceptJoinRequest jr s)"
    and "findArea (jr_conversationLabel jr) s = Some ca"
  shows "(\<forall>a. maxOccupants (areaObjs (snd (acceptJoinRequest jr s)) a)
                = maxOccupants (areaObjs s a)) \<and>
         (\<forall>a. occupantsByID (areaObjs (snd (acceptJoinRequest jr s)) a)
                = (if a = ca then occupantsByID (areaObjs s ca) @ [jr_playerId jr]
                   else occupantsByID (areaObjs s a))) \<and>
         (\<forall>m. maxOccupants (areaObjs s ca) = Some m \<and>
               real (length (occupantsByID (areaObjs s ca))) + 1 \<le> m \<longrightarrow>
               real (length (occupantsByID (areaObjs (snd (acceptJoinRequest jr s)) ca))) \<le> m)"
proof -
  from assms(1) obtain p where p: "findPlayer (jr_playerId jr) s = Some p"
    by (auto simp: acceptJoinRequest_fst)
  note occ = acceptJoinRequest_occupants [OF assms(2) p]
  show ?thesis
    by (simp add: occ acceptJoinRequest_maxOccupants)
qed

text \<open>C2, witness: B's request is accepted into \<open>L\<close>, which has capacity 2 and one occupant.\<close>

theorem acceptJoinRequest_capacity_witness:
  "fst (acceptJoinRequest requestR1 town4) \<and>
   maxOccupants (areaObjs town4 0) = Some 2 \<and>
   occupantsByID (areaObjs town4 0) = [''A''] \<and>
   occupantsByID (areaObjs (snd (acceptJoinRequest requestR1 town4)) 0) = [''A'', ''B''] \<and>
   real (length (occupantsByID (areaObjs (snd (acceptJoinRequest requestR1 town4)) 0))) \<le> 2"
proof -
  have ok: "fst (acceptJoinRequest requestR1 town4)" by code_simp
  have f: "findArea (jr_conversationLabel requestR1) town4 = Some 0" by code_simp
  have m: "maxOccupants (areaObjs town4 0) = Some 2" by code_simp
  have o: "occupantsByID (areaObjs town4 0) = [''A'']" by code_simp
  have i: "jr_playerId requestR1 = ''B''" by (simp add: requestR1_def)
  from acceptJoinRequest_capacity [OF ok f] m o i show ?thesis using ok by simp
qed

text \<open>
  C2, counterexample.  \<open>L\<close> has capacity 2, the admin A as its only occupant and three pending
  requests.  When A is removed, the cascade accepts B and C, the area is full and D's request is
  denied, and then the cascade accepts D all the same: three occupants.  And
  \<open>addConversationArea\<close> with capacity 1 around two players makes both of them occupants.
\<close>

theorem capacity_exceeded:
  "conversationAreas town10 = [0] \<and> maxOccupants (areaObjs town10 0) = Some 2 \<and>
   occupantsByID (areaObjs town10 0) = [''B'', ''C'', ''D''] \<and>
   activeConversationArea (playerObjs town10 3) = Some 0 \<and>
   fst (addConversationArea isWithin (areaL Public (Some 1)) 0 townAB) \<and>
   maxOccupants (areaObjs (snd (addConversationArea isWithin (areaL Public (Some 1)) 0 townAB)) 0)
     = Some 1 \<and>
   occupantsByID (areaObjs (snd (addConversationArea isWithin (areaL Public (Some 1)) 0 townAB)) 0)
     = [''A'', ''B'']"
  by code_simp

section \<open>Active areas never overlap\<close>

text \<open>
  C3.  In every reachable state of the controller no area is listed twice among the active
  areas, and the bounding boxes of any two different active areas do not overlap under the
  predicate of \<open>boxesOverlap\<close> (boxes that share an edge only do not overlap).
\<close>

theorem active_areas_never_overlap:
  assumes "reachable inside s"
  shows "distinct (conversationAreas s) \<and>
         (\<forall>A \<in> set (conversationAreas s). \<forall>B \<in> set (conversationAreas s).
            A \<noteq> B \<longrightarrow> \<not> boxesOverlap (boundingBox (areaObjs s A)) (boundingBox (areaObjs s B)))"
  using reachable_noOverlaps [OF assms] by (simp add: noOverlaps_def)

text \<open>
  C3, witness: \<open>L\<close> and \<open>M\<close>, whose boxes share the edge at \<open>x = 2.5\<close>, are both active in a
  reachable state.
\<close>

theorem active_areas_never_overlap_witness:
  "reachable isWithin townLM \<and> conversationAreas townLM = [0, 1] \<and>
   boundingBox (areaObjs townLM 0) = \<lparr>box_x = 0, box_y = 0, width = 5, height = 5\<rparr> \<and>
   boundingBox (areaObjs townLM 1) = \<lparr>box_x = 5, box_y = 0, width = 5, height = 5\<rparr> \<and>
   \<not> boxesOverlap (boundingBox (areaObjs townLM 0)) (boundingBox (areaObjs townLM 1))"
proof -
  have "reachable isWithin (addTownListener 7 newTown)"
    by (rule r_addTownListener [OF r_new])
  then have "reachable isWithin town1"
    unfolding town1_def by (rule r_addPlayer)
  moreover have "0 < nextPlayer town1" by code_simp
  ultimately have "reachable isWithin town2"
    unfolding town2_def by (rule r_addConversationArea)
  moreover have "0 < nextPlayer town2" by code_simp
  ultimately have re: "reachable isWithin townLM"
    unfolding townLM_def by (rule r_addConversationArea)
  have l: "conversationAreas townLM = [0, 1]" by code_simp
  have b: "boundingBox (areaObjs townLM 0) = \<lparr>box_x = 0, box_y = 0, width = 5, height = 5\<rparr>"
    "boundingBox (areaObjs townLM 1) = \<lparr>box_x = 5, box_y = 0, width = 5, height = 5\<rparr>"
    by code_simp+
  from active_areas_never_overlap [OF re]
  have "\<not> boxesOverlap (boundingBox (areaObjs townLM 0)) (boundingBox (areaObjs townLM 1))"
    by (simp add: l)
  with re l b show ?thesis by simp
qed

section \<open>Moving into a \<open>DoNotDisturb\<close> area\<close>

text \<open>
  What the \<open>DoNotDisturb\<close> branch does on any input: the location stored is the new location,
  its conversation label being the declared one (or none, when that is the empty string); no
  area changes, and no event is sent.
\<close>

lemma updatePlayerLocation_DoNotDisturb_branch:
  assumes "find (\<lambda>conv. Some (label (areaObjs s conv)) = conversationLabel loc)
             (conversationAreas s) = Some c"
    and "status (areaObjs s c) = DoNotDisturb"
  shows "updatePlayerLocation p loc s
           = updPlayer p (\<lambda>pl. pl\<lparr>location :=
               loc\<lparr>conversationLabel := orUndefined (conversationLabel loc)\<rparr>\<rparr>) s"
  using assms by (simp add: updatePlayerLocation_def Let_def updPlayer_def)

text \<open>
  C4, the code at the failing input.  Player A, who declared no conversation label so far and is
  a member of no area, moves declaring the label of the \<open>DoNotDisturb\<close> area \<open>K\<close>.  The stored
  location carries the declared label \<open>K\<close>, not the previous one, and the one listener of the
  town receives no event; the occupants of \<open>K\<close> and A's membership are unchanged.
\<close>

theorem updatePlayerLocation_DoNotDisturb:
  "conversationAreas townK = [0] \<and> label (areaObjs townK 0) = ''K'' \<and>
   status (areaObjs townK 0) = DoNotDisturb \<and> listeners townK = [7] \<and>
   conversationLabel (location (playerObjs townK 0)) = None \<and>
   conversationLabel (location (playerObjs (updatePlayerLocation 0 locationInK townK) 0))
     = Some ''K'' \<and>
   emitted (updatePlayerLocation 0 locationInK townK) = emitted townK \<and>
   occupantsByID (areaObjs (updatePlayerLocation 0 locationInK townK) 0)
     = occupantsByID (areaObjs townK 0) \<and>
   activeConversationArea (playerObjs (updatePlayerLocation 0 locationInK townK) 0)
     = activeConversationArea (playerObjs townK 0)"
  by code_simp

section \<open>Creating a conversation area\<close>

text \<open>
  The refusals that \<open>addConversationArea\<close> does make: a label in use, an empty topic, a negative
  capacity, an overlapping box.  The state, and with it the events, is as before.
\<close>

lemma addConversationArea_refusals:
  assumes "(\<exists>a \<in> set (conversationAreas s). label (areaObjs s a) = label ca)
           \<or> topic ca = Some []
           \<or> (\<exists>m. maxOccupants ca = Some m \<and> m < 0)
           \<or> (\<exists>a \<in> set (conversationAreas s).
                 boxesOverlap (boundingBox (areaObjs s a)) (boundingBox ca))"
  shows "addConversationArea inside ca p s = (False, s)"
proof -
  have f: "(find P xs \<noteq> None) = (\<exists>a \<in> set xs. P a)" for P :: "nat \<Rightarrow> bool" and xs
    by (auto simp: find_None_iff)
  from assms show ?thesis
    unfolding addConversationArea_def f by auto
qed

text \<open>
  C5, the code at the failing input.  A new area with capacity 0, a fresh label, a topic and no
  overlap is accepted: the call returns true, the area is in the list and an area-updated event
  is sent.
\<close>

theorem addConversationArea_capacity_zero:
  "conversationAreas town1 = [] \<and>
   fst (addConversationArea isWithin (areaL Public (Some 0)) 0 town1) = True \<and>
   conversationAreas (snd (addConversationArea isWithin (areaL Public (Some 0)) 0 town1)) = [0] \<and>
   maxOccupants (areaObjs (snd (addConversationArea isWithin (areaL Public (Some 0)) 0 town1)) 0)
     = Some 0 \<and>
   emitted (snd (addConversationArea isWithin (areaL Public (Some 0)) 0 town1))
     = emitted town1 @ [(7, ConversationAreaUpdated 0)]"
  by code_simp

section \<open>An admin leaves an area\<close>

text \<open>
  C6 (as amended).  Let a player with \<open>Admin\<close> permission be removed from an area by
  \<open>removePlayerFromConversationArea\<close>, and let every request pending on the area name the area
  (its label is found, first, at this area among the active areas).  After the call the
  player's permission is \<open>Normal\<close>, every listener has been sent a permission event for the
  player, the area's status is \<open>Public\<close>, and every request that was pending at the start of
  the call, other than the leaving player's own, whose requesting player is still in the players
  list has been accepted: the requester's id is in the occupant list and the requester's
  membership is the area.
\<close>

theorem removePlayerFromConversationArea_admin:
  assumes admin: "permissions (playerObjs s p) = Admin"
    and H: "\<forall>jr \<in> set (joinRequests (areaObjs s c)). findArea (jr_conversationLabel jr) s = Some c"
  shows "permissions (playerObjs (removePlayerFromConversationArea p c s) p) = Normal \<and>
         status (areaObjs (removePlayerFromConversationArea p c s) c) = Public \<and>
         (\<exists>es. emitted (removePlayerFromConversationArea p c s) = emitted s @ es \<and>
               (\<forall>l \<in> set (listeners s). (l, PlayerPermissionUpdated p) \<in> set es)) \<and>
         (\<forall>jr \<in> set (joinRequests (areaObjs s c)). \<forall>q.
            findPlayer (jr_playerId jr) s = Some q \<and>
            (\<forall>pjr. activeJoinRequest (playerObjs s p) = Some pjr \<longrightarrow> jr_id pjr \<noteq> jr_id jr) \<longrightarrow>
            jr_playerId jr
              \<in> set (occupantsByID (areaObjs (removePlayerFromConversationArea p c s) c)) \<and>
            activeConversationArea (playerObjs (removePlayerFromConversationArea p c s) q) = Some c)"
proof -
  define pid where "pid = player_id (playerObjs s p)"
  define s1 where "s1 = (if pid \<in> set (occupantsByID (areaObjs s c)) \<and> pid \<noteq> []
               then updArea c (\<lambda>a. a\<lparr>occupantsByID := remove1 pid (occupantsByID a)\<rparr>) s
               else s)"
  define s2 where "s2 = (case activeJoinRequest (playerObjs s1 p) of
                 None \<Rightarrow> s1
               | Some playerJoinRequest \<Rightarrow>
                   if \<exists>jr \<in> set (joinRequests (areaObjs s1 c)).
                        jr_id jr = jr_id playerJoinRequest
                   then snd (removeJoinRequest playerJoinRequest s1) else s1)"
  define t3 where "t3 = updArea c (\<lambda>a. a\<lparr>status := Public\<rparr>)
                     (emit (PlayerPermissionUpdated p)
                        (updPlayer p (\<lambda>pl. pl\<lparr>permissions := Normal\<rparr>) s2))"
  define s3 where "s3 = acceptAll (joinRequests (areaObjs t3 c)) t3"
  define s' where "s' = removePlayerFromConversationArea p c s"

  have m1: "onlyMembershipChanged s s1"
    by (simp add: s1_def onlyMembershipChanged_def)
  have p1: "playerObjs s1 = playerObjs s" and j1: "joinRequests (areaObjs s1 a) = joinRequests (areaObjs s a)"
    and e1: "emitted s1 = emitted s" for a
    by (simp_all add: s1_def)
  have o2: "onlyRequestsChanged s1 s2"
    by (simp add: s2_def removeJoinRequest_only onlyRequestsChanged_refl split: option.splits)
  then have m2: "onlyMembershipChanged s1 s2" by (rule onlyRequestsChanged_membership)
  from onlyRequestsChanged_player(4) [OF o2, of p] admin
  have a2: "permissions (playerObjs s2 p) = Admin" by (simp add: p1)
  have r: "s' = (if length (occupantsByID (areaObjs s3 c)) = 0
        then emit (ConversationAreaDestroyed c)
               (s3\<lparr>conversationAreas :=
                  (if c \<in> set (conversationAreas s3)
                   then remove1 c (conversationAreas s3)
                   else butlast (conversationAreas s3))\<rparr>)
        else emit (ConversationAreaUpdated c) s3)"
    unfolding s'_def removePlayerFromConversationArea_def Let_def
    using a2 unfolding s3_def t3_def s2_def s1_def pid_def by simp
  have fin: "areaObjs s' = areaObjs s3" "playerObjs s' = playerObjs s3"
    "\<exists>es. emitted s' = emitted s3 @ es"
    by (simp_all add: r)

  have mA: "onlyMembershipChanged t3 s3"
    by (simp add: s3_def acceptAll_membership)

  \<comment> \<open>the lookups are the same in \<open>s\<close> and \<open>t3\<close>\<close>
  have fa: "findArea l t3 = findArea l s" for l
  proof -
    have "findArea l t3 = findArea l s2" by (rule findArea_cong) (simp_all add: t3_def)
    then show ?thesis
      by (simp add: onlyMembershipChanged_findArea [OF m1] onlyMembershipChanged_findArea [OF m2])
  qed
  have fp: "findPlayer i t3 = findPlayer i s" for i
  proof -
    have "findPlayer i t3 = findPlayer i s2" by (rule findPlayer_cong) (simp_all add: t3_def)
    then show ?thesis
      by (simp add: onlyMembershipChanged_findPlayer [OF m1] onlyMembershipChanged_findPlayer [OF m2])
  qed
  have j3: "joinRequests (areaObjs t3 c) = joinRequests (areaObjs s2 c)"
    by (simp add: t3_def)
  have sub: "set (joinRequests (areaObjs s2 c)) \<subseteq> set (joinRequests (areaObjs s c))"
    using removeJoinRequest_requests_subset [of _ s1 c]
    by (auto simp: s2_def j1 split: option.splits if_splits)
  with H have H3: "\<forall>jr \<in> set (joinRequests (areaObjs t3 c)). findArea (jr_conversationLabel jr) t3 = Some c"
    by (auto simp: j3 fa)

  have c1: "permissions (playerObjs s' p) = Normal"
    by (simp add: fin onlyMembershipChanged_player(3) [OF mA] t3_def)
  have c2: "status (areaObjs s' c) = Public"
    by (simp add: fin onlyMembershipChanged_area(4) [OF mA] t3_def)
  have c3: "\<exists>es. emitted s' = emitted s @ es \<and>
               (\<forall>l \<in> set (listeners s). (l, PlayerPermissionUpdated p) \<in> set es)"
  proof -
    from onlyMembershipChanged_emitted [OF m2] obtain es2 where es2: "emitted s2 = emitted s @ es2"
      by (auto simp: e1)
    have l2: "listeners s2 = listeners s"
      by (simp add: onlyMembershipChanged_lists [OF m2] onlyMembershipChanged_lists [OF m1])
    have et: "emitted t3 = emitted s2 @ map (\<lambda>l. (l, PlayerPermissionUpdated p)) (listeners s)"
      by (simp add: t3_def l2)
    from onlyMembershipChanged_emitted [OF mA] obtain es3 where es3: "emitted s3 = emitted t3 @ es3"
      by auto
    from fin(3) obtain es4 where es4: "emitted s' = emitted s3 @ es4" by auto
    have "emitted s' = emitted s @ (es2 @ map (\<lambda>l. (l, PlayerPermissionUpdated p)) (listeners s) @ es3 @ es4)"
      by (simp add: es4 es3 et es2)
    moreover have "\<forall>l \<in> set (listeners s). (l, PlayerPermissionUpdated p)
        \<in> set (es2 @ map (\<lambda>l. (l, PlayerPermissionUpdated p)) (listeners s) @ es3 @ es4)"
      by auto
    ultimately show ?thesis by blast
  qed
  have c4: "jr_playerId jr \<in> set (occupantsByID (areaObjs s' c)) \<and>
            activeConversationArea (playerObjs s' q) = Some c"
    if jr: "jr \<in> set (joinRequests (areaObjs s c))"
      and q: "findPlayer (jr_playerId jr) s = Some q"
      and own: "\<forall>pjr. activeJoinRequest (playerObjs s p) = Some pjr \<longrightarrow> jr_id pjr \<noteq> jr_id jr"
    for jr q
  proof -
    have "jr \<in> set (joinRequests (areaObjs s2 c))"
    proof (cases "activeJoinRequest (playerObjs s p)")
      case None
      with jr show ?thesis by (simp add: s2_def p1 j1)
    next
      case (Some pjr)
      with own have "jr_id jr \<noteq> jr_id pjr" by auto
      with jr have "jr \<in> set (joinRequests (areaObjs (snd (removeJoinRequest pjr s1)) c))"
        by (simp add: removeJoinRequest_keeps_others j1)
      with jr Some show ?thesis by (simp add: s2_def p1 j1)
    qed
    then have "jr \<in> set (joinRequests (areaObjs t3 c))" by (simp add: j3)
    moreover from q have "findPlayer (jr_playerId jr) t3 = Some q" by (simp add: fp)
    ultimately show ?thesis
      using acceptAll_accepts [OF H3] by (simp add: fin s3_def)
  qed
  from c1 c2 c3 c4 show ?thesis unfolding s'_def by blast
qed

text \<open>C6, witness: the admin A is removed from \<open>L\<close> while B's request is pending.\<close>

theorem removePlayerFromConversationArea_admin_witness:
  "permissions (playerObjs town4 0) = Admin \<and>
   joinRequests (areaObjs town4 0) = [requestR1] \<and>
   permissions (playerObjs (removePlayerFromConversationArea 0 0 town4) 0) = Normal \<and>
   status (areaObjs (removePlayerFromConversationArea 0 0 town4) 0) = Public \<and>
   ''B'' \<in> set (occupantsByID (areaObjs (removePlayerFromConversationArea 0 0 town4) 0)) \<and>
   activeConversationArea (playerObjs (removePlayerFromConversationArea 0 0 town4) 1) = Some 0"
proof -
  have a: "permissions (playerObjs town4 0) = Admin" by code_simp
  have j: "joinRequests (areaObjs town4 0) = [requestR1]" by code_simp
  have f: "findArea (jr_conversationLabel requestR1) town4 = Some 0" by code_simp
  have h: "\<forall>jr \<in> set (joinRequests (areaObjs town4 0)).
             findArea (jr_conversationLabel jr) town4 = Some 0"
    by (simp add: j f)
  have q: "findPlayer (jr_playerId requestR1) town4 = Some 1" by code_simp
  have n: "activeJoinRequest (playerObjs town4 0) = None" by code_simp
  have i: "jr_playerId requestR1 = ''B''" by (simp add: requestR1_def)
  from removePlayerFromConversationArea_admin [OF a h] j q n i a show ?thesis by simp
qed

text \<open>
  C6, counterexample.  B disconnected while B's request was pending, and the request is still
  in the pending list of \<open>L\<close>.  When the admin A is then removed from \<open>L\<close>, the request is not
  accepted: the occupant list is empty, B has no membership and the request is still listed.
\<close>

theorem departed_requester_not_accepted:
  "permissions (playerObjs town5 0) = Admin \<and>
   joinRequests (areaObjs town5 0) = [requestR1] \<and>
   occupantsByID (areaObjs (removePlayerFromConversationArea 0 0 town5) 0) = [] \<and>
   joinRequests (areaObjs (removePlayerFromConversationArea 0 0 town5) 0) = [requestR1] \<and>
   activeConversationArea (playerObjs (removePlayerFromConversationArea 0 0 town5) 1) = None"
  by code_simp

section \<open>Denying a join request\<close>

text \<open>
  C7 (as amended).  \<open>removeJoinRequest\<close> never throws (it has no failing branch).  It returns
  false exactly when the request's conversation label names no active area or its player id
  names no player of the town.  On a request that is in no active area's pending list it leaves
  every pending list as it was, whatever it returns.
\<close>

theorem removeJoinRequest_result:
  "fst (removeJoinRequest jr s)
     = (findArea (jr_conversationLabel jr) s \<noteq> None \<and> findPlayer (jr_playerId jr) s \<noteq> None) \<and>
   ((\<forall>a \<in> set (conversationAreas s). \<forall>r \<in> set (joinRequests (areaObjs s a)). jr_id r \<noteq> jr_id jr) \<longrightarrow>
    (\<forall>a. joinRequests (areaObjs (snd (removeJoinRequest jr s)) a) = joinRequests (areaObjs s a)))"
proof (intro conjI impI allI)
  show "fst (removeJoinRequest jr s)
     = (findArea (jr_conversationLabel jr) s \<noteq> None \<and> findPlayer (jr_playerId jr) s \<noteq> None)"
    by (simp add: removeJoinRequest_def Let_def split: option.splits)
next
  fix a
  assume np: "\<forall>a \<in> set (conversationAreas s). \<forall>r \<in> set (joinRequests (areaObjs s a)). jr_id r \<noteq> jr_id jr"
  have "filter (\<lambda>request. jr_id request \<noteq> jr_id jr) (joinRequests (areaObjs s ca))
          = joinRequests (areaObjs s ca)"
    if "findArea (jr_conversationLabel jr) s = Some ca" for ca
  proof -
    from that have "ca \<in> set (conversationAreas s)" by (rule findArea_in_list)
    with np have "\<forall>r \<in> set (joinRequests (areaObjs s ca)). jr_id r \<noteq> jr_id jr" by blast
    then show ?thesis by (simp add: filter_id_conv)
  qed
  then show "joinRequests (areaObjs (snd (removeJoinRequest jr s)) a) = joinRequests (areaObjs s a)"
    by (simp add: removeJoinRequest_def Let_def split: option.splits)
qed

text \<open>
  C7, witness: B's request, denied once, is denied again while B and the area are still there.
\<close>

theorem removeJoinRequest_result_witness:
  "fst (removeJoinRequest requestR1 town4denied) \<and>
   joinRequests (areaObjs (snd (removeJoinRequest requestR1 town4denied)) 0)
     = joinRequests (areaObjs town4denied 0)"
proof -
  have "\<forall>a \<in> set (conversationAreas town4denied).
          \<forall>r \<in> set (joinRequests (areaObjs town4denied a)). jr_id r \<noteq> jr_id requestR1"
    by code_simp
  moreover have "findArea (jr_conversationLabel requestR1) town4denied \<noteq> None"
    and "findPlayer (jr_playerId requestR1) town4denied \<noteq> None"
    by code_simp+
  ultimately show ?thesis
    using removeJoinRequest_result [of requestR1 town4denied] by simp
qed

text \<open>
  C7, counterexample.  After B's request was denied, the only area allocated has an empty pending
  list; denying the same request again returns true, not false.
\<close>

theorem removeJoinRequest_twice_true:
  "conversationAreas town4denied = [0] \<and> nextArea town4denied = 1 \<and>
   joinRequests (areaObjs town4denied 0) = [] \<and>
   fst (removeJoinRequest requestR1 town4denied) = True"
  by code_simp

section \<open>Who may resolve a join request\<close>

text \<open>
  What \<open>updateJoinRequest\<close> checks.  For a player without \<open>Admin\<close> permission: that the call
  is a denial and the request's player id is the player's own.  For an admin: that the player
  has a membership and that some request in the pending list of that area has the id of the
  request handed in.  A refused call leaves the state as it was, and every call that the rule
  of the specification permits passes the checks.
\<close>

lemma updateJoinRequest_result:
  "fst (updateJoinRequest p decision jr s)
     = (if permissions (playerObjs s p) = Admin
        then (case activeConversationArea (playerObjs s p) of
                None \<Rightarrow> False
              | Some ca \<Rightarrow> \<exists>r \<in> set (joinRequests (areaObjs s ca)). jr_id r = jr_id jr)
        else \<not> decision \<and> jr_playerId jr = player_id (playerObjs s p))"
  by (auto simp: updateJoinRequest_def split: option.splits)

lemma updateJoinRequest_refused:
  "\<not> fst (updateJoinRequest p decision jr s) \<Longrightarrow> snd (updateJoinRequest p decision jr s) = s"
  by (auto simp: updateJoinRequest_def split: option.splits if_splits)

lemma resolvePermitted_accepted:
  "resolvePermitted p decision jr s \<Longrightarrow> fst (updateJoinRequest p decision jr s)"
  by (auto simp: updateJoinRequest_result resolvePermitted_def split: option.splits if_splits)

lemma updateJoinRequest_not_admin:
  "permissions (playerObjs s p) \<noteq> Admin \<Longrightarrow>
   fst (updateJoinRequest p decision jr s) = resolvePermitted p decision jr s"
  by (simp add: updateJoinRequest_result resolvePermitted_def)

text \<open>
  The same defect at a second input: C is an admin whose membership is still \<open>L\<close> but who is
  not among the occupants of \<open>L\<close>.  The rule of the specification refuses C; the call succeeds
  and B becomes an occupant of \<open>L\<close>.
\<close>

lemma updateJoinRequest_stale_membership:
  "permissions (playerObjs townS3 1) = Admin \<and>
   activeConversationArea (playerObjs townS3 1) = Some 0 \<and>
   player_id (playerObjs townS3 1) = ''C'' \<and>
   occupantsByID (areaObjs townS3 0) = [''A''] \<and>
   joinRequests (areaObjs townS3 0) = [requestR1] \<and>
   \<not> resolvePermitted 1 True requestR1 townS3 \<and>
   fst (updateJoinRequest 1 True requestR1 townS3) \<and>
   occupantsByID (areaObjs (snd (updateJoinRequest 1 True requestR1 townS3)) 0) = [''A'', ''B'']"
  by code_simp

text \<open>
  C8, the code at the failing input.  A is the admin and an occupant of \<open>L\<close>, whose pending list
  holds B's request only; \<open>M\<close> is another active area and C a player in no area.  A accepts a
  request that carries the id of B's request but names C and \<open>M\<close>.  That request is not in the
  pending list of \<open>L\<close>, and the rule of the specification refuses it; the call returns true, C
  becomes an occupant of \<open>M\<close> with \<open>M\<close> as membership, and B's request is still pending.
\<close>

theorem updateJoinRequest_forged_request:
  "permissions (playerObjs town4M 0) = Admin \<and>
   activeConversationArea (playerObjs town4M 0) = Some 0 \<and>
   player_id (playerObjs town4M 0) \<in> set (occupantsByID (areaObjs town4M 0)) \<and>
   label (areaObjs town4M 0) = ''L'' \<and> label (areaObjs town4M 1) = ''M'' \<and>
   joinRequests (areaObjs town4M 0) = [requestR1] \<and>
   joinRequests (areaObjs town4M 1) = [] \<and>
   forgedRequest \<notin> set (joinRequests (areaObjs town4M 0)) \<and>
   \<not> resolvePermitted 0 True forgedRequest town4M \<and>
   fst (updateJoinRequest 0 True forgedRequest town4M) \<and>
   occupantsByID (areaObjs town4M 1) = [] \<and>
   occupantsByID (areaObjs (snd (updateJoinRequest 0 True forgedRequest town4M)) 1) = [''C''] \<and>
   activeConversationArea (playerObjs (snd (updateJoinRequest 0 True forgedRequest town4M)) 2)
     = Some 1 \<and>
   joinRequests (areaObjs (snd (updateJoinRequest 0 True forgedRequest town4M)) 0) = [requestR1]"
  by code_simp

section \<open>Updating a conversation area\<close>

text \<open>
  C9.  After a successful \<open>updateConversationArea\<close> the area named by the label is still the
  same area and its \<open>maxOccupants\<close> is the argument of the call; a call that gives no
  \<open>maxOccupants\<close> leaves the area with no limit.
\<close>

theorem updateConversationArea_maxOccupants:
  assumes "fst (updateConversationArea lbl p st mo s)"
  shows "\<exists>ca. findArea lbl s = Some ca \<and>
              findArea lbl (snd (updateConversationArea lbl p st mo s)) = Some ca \<and>
              maxOccupants (areaObjs (snd (updateConversationArea lbl p st mo s)) ca) = mo"
proof -
  from assms obtain ca where ca: "findArea lbl s = Some ca"
    by (cases "findArea lbl s") (simp_all add: updateConversationArea_def)
  define s1 where "s1 = (case st of None \<Rightarrow> s | Some v \<Rightarrow> updArea ca (\<lambda>a. a\<lparr>status := v\<rparr>) s)"
  define s2 where "s2 = updArea ca (\<lambda>a. a\<lparr>maxOccupants := mo\<rparr>) s1"
  define s3 where "s3 = (if status (areaObjs s2 ca) = DoNotDisturb
                       \<or> (status (areaObjs s2 ca) = AvailableToRequest
                          \<and> Some (real (length (occupantsByID (areaObjs s2 ca))))
                              = maxOccupants (areaObjs s2 ca))
                    then removeAll (joinRequests (areaObjs s2 ca)) s2 else s2)"
  define s4 where "s4 = (if status (areaObjs s3 ca) = Public
                    then emit (PlayerPermissionUpdated p)
                           (updPlayer p (\<lambda>pl. pl\<lparr>permissions := Normal\<rparr>) s3)
                    else s3)"
  from assms ca have r: "snd (updateConversationArea lbl p st mo s) = emit (ConversationAreaUpdated ca) s4"
    by (simp add: updateConversationArea_def Let_def s1_def s2_def s3_def s4_def split: if_splits)
  have o: "onlyRequestsChanged s2 s3"
    by (simp add: s3_def removeAll_only onlyRequestsChanged_refl)
  have m2: "maxOccupants (areaObjs s2 ca) = mo" by (simp add: s2_def)
  have l1: "label (areaObjs s1 a) = label (areaObjs s a)" for a
    by (simp add: s1_def split: option.splits)
  have c1: "conversationAreas s1 = conversationAreas s"
    by (simp add: s1_def split: option.splits)
  have "findArea lbl s2 = findArea lbl s"
    by (rule findArea_cong) (simp_all add: s2_def l1 c1)
  with o have f3: "findArea lbl s3 = findArea lbl s"
    by (simp add: onlyRequestsChanged_findArea)
  have "findArea lbl (emit (ConversationAreaUpdated ca) s4) = findArea lbl s3"
    by (rule findArea_cong) (simp_all add: s4_def)
  moreover have "maxOccupants (areaObjs (emit (ConversationAreaUpdated ca) s4) ca) = mo"
    using onlyRequestsChanged_area(6) [OF o, of ca] m2 by (simp add: s4_def)
  ultimately show ?thesis using ca f3 r by simp
qed

text \<open>
  C9, witness: the admin A sets \<open>L\<close>, whose capacity was 2, to \<open>DoNotDisturb\<close> and gives no
  capacity; the limit is gone.
\<close>

theorem updateConversationArea_maxOccupants_witness:
  "maxOccupants (areaObjs town4 0) = Some 2 \<and>
   fst (updateConversationArea ''L'' 0 (Some DoNotDisturb) None town4) \<and>
   findArea ''L'' town4 = Some 0 \<and>
   maxOccupants (areaObjs (snd (updateConversationArea ''L'' 0 (Some DoNotDisturb) None town4)) 0) = None"
proof -
  have h: "fst (updateConversationArea ''L'' 0 (Some DoNotDisturb) None town4)" by code_simp
  have f: "findArea ''L'' town4 = Some 0" by code_simp
  have m: "maxOccupants (areaObjs town4 0) = Some 2" by code_simp
  from updateConversationArea_maxOccupants [OF h] f m h show ?thesis by simp
qed

section \<open>Listing join requests\<close>

text \<open>
  \<open>destroySession\<close> for a player without membership touches no area, so a pending request of
  that player stays where it is.
\<close>

lemma destroySession_without_membership:
  assumes "activeConversationArea (playerObjs s (player session)) = None"
  shows "areaObjs (destroySession session s) = areaObjs s"
    and "players (destroySession session s)
           = filter (\<lambda>p. player_id (playerObjs s p) \<noteq> player_id (playerObjs s (player session)))
               (players s)"
  using assms by (simp_all add: destroySession_def Let_def)

text \<open>
  C10, the code at the failing input.  B has a pending request on \<open>L\<close> and no membership.  When
  B's session is destroyed, B leaves the players list and the request stays in the pending list
  of \<open>L\<close>; the admin's next \<open>getJoinRequests\<close> fails its assertion.
\<close>

theorem getJoinRequests_assertion_fails:
  "players town4 = [0, 1] \<and> activeConversationArea (playerObjs town4 1) = None \<and>
   activeJoinRequest (playerObjs town4 1) = Some requestR1 \<and>
   players town5 = [0] \<and> joinRequests (areaObjs town5 0) = [requestR1] \<and>
   findPlayer (jr_playerId requestR1) town5 = None \<and>
   getJoinRequests ''L'' 0 town4
     = Inr (Some [\<lparr>entry_id = ''r1'', entry_playerId = ''B'', entry_userName = ''B'',
                   entry_conversationLabel = ''L'', entry_conversationTopic = Some ''chat''\<rparr>]) \<and>
   getJoinRequests ''L'' 0 town5 = Inl AssertionError"
  by code_simp

text \<open>
  C10, witness: in that state A passes every guard of \<open>getJoinRequests\<close> (A's membership is
  \<open>L\<close>, A is an occupant of \<open>L\<close> and an admin), so the listing itself is what fails.
\<close>

theorem getJoinRequests_assertion_fails_witness:
  "findArea ''L'' town5 = Some 0 \<and> activeConversationArea (playerObjs town5 0) = Some 0 \<and>
   player_id (playerObjs town5 0) \<in> set (occupantsByID (areaObjs town5 0)) \<and>
   permissions (playerObjs town5 0) = Admin \<and>
   getJoinRequests ''L'' 0 town5 = Inl AssertionError"
proof -
  have "findArea ''L'' town5 = Some 0" by code_simp
  moreover have "activeConversationArea (playerObjs town5 0) = Some 0" by code_simp
  moreover have "player_id (playerObjs town5 0) \<in> set (occupantsByID (areaObjs town5 0))"
    by code_simp
  moreover have "permissions (playerObjs town5 0) = Admin" by code_simp
  moreover from getJoinRequests_assertion_fails
  have "getJoinRequests ''L'' 0 town5 = Inl AssertionError" by simp
  ultimately show ?thesis by simp
qed

end
